theory Spec2Isabelle
  imports Main "HOL-Library.Finite_Map" "HOL-Library.Sublist"
    "HOL-Library.List_Lexorder" "HOL-Library.Char_ord"
begin

section \<open>The copy command of the lxc client (lxc/copy.go)\<close>

text \<open>
  The model follows \<^verbatim>\<open>copyCmd.copyContainer\<close> and \<^verbatim>\<open>copyCmd.run\<close> statement by
  statement. Everything the function asks of the client library (package lxd) is a
  call to the environment, and every such call is appended to a log. The answers of the
  environment may depend on the log so far, so a remote endpoint whose behaviour changes
  with the requests it has seen is covered. The function's result is what it returns (or
  that it panics), the log of calls, and the lines printed on standard output.
\<close>

subsection \<open>Data\<close>

text \<open>A Go \<^verbatim>\<open>map[string]T\<close>: a finite map. Where the code writes to a map that may be
  nil, the map is an option and \<open>None\<close> is nil.\<close>

type_synonym 'v gomap = "(string, 'v) fmap"

text \<open>A value decoded from JSON into \<^verbatim>\<open>interface{}\<close>. Only its dynamic type matters
  to the type assertion \<^verbatim>\<open>v.(string)\<close>.\<close>

datatype jvalue =
    JString string
  | JNumber int
  | JBool bool
  | JNull
  | JArray "jvalue list"
  | JObject "(string \<times> jvalue) list"

text \<open>The errors \<^verbatim>\<open>copyContainer\<close> and \<^verbatim>\<open>run\<close> return. \<open>Upstream\<close> is an error
  returned by the client library, with its message; the others are built in this file
  by \<^verbatim>\<open>fmt.Errorf\<close> (or are the package's \<^verbatim>\<open>errArgs\<close>).\<close>

datatype error =
    Upstream string
  | ErrArgs
  | ErrNoSourceName
  | ErrSameName
  | ErrNoResource
  | ErrProfiles
  | ErrSourceHost string
  | ErrTargetHost "string option"

text \<open>The text of each error. \<^verbatim>\<open>%s\<close> of a nil error prints \<^verbatim>\<open>%!s(<nil>)\<close>.\<close>

fun message :: "error \<Rightarrow> string" where
  "message (Upstream m) = m"
| "message ErrArgs = ''wrong number of subcommand arguments''"
| "message ErrNoSourceName = ''you must specify a source container name''"
| "message ErrSameName = ''can't copy to the same container name''"
| "message ErrNoResource =
     ''didn't get any affected image, container or snapshot from server''"
| "message ErrProfiles = ''not all the profiles from the source exist on the target''"
| "message (ErrSourceHost m) = ''Migration failed on source host: '' @ m"
| "message (ErrTargetHost None) = ''Migration failed on target host: %!s(<nil>)''"
| "message (ErrTargetHost (Some m)) = ''Migration failed on target host: '' @ m"

text \<open>What a call of the function ends with: it returns an error value (\<open>None\<close> is
  nil), or it panics.\<close>

datatype outcome = Return "error option" | Panic string

text \<open>The receiver \<^verbatim>\<open>copyCmd\<close>. A nil slice is \<open>None\<close>.\<close>

record copyCmd =
  profArgs :: "string list option"
  confArgs :: "string list option"
  ephem :: bool
  containerOnly :: bool

text \<open>The local \<^verbatim>\<open>status\<close> struct, and the part of \<^verbatim>\<open>api.Container\<close> and
  \<^verbatim>\<open>api.ContainerSnapshot\<close> that the function reads: the same four fields, and
  \<^verbatim>\<open>Ephemeral\<close>.\<close>

record status =
  Architecture :: string
  Devices :: "string gomap gomap"
  Config :: "string gomap option"
  Profiles :: "string list"

record container = status +
  Ephemeral :: bool

text \<open>\<^verbatim>\<open>api.Operation\<close> and \<^verbatim>\<open>api.Response\<close>. The response keeps the result of its
  method \<^verbatim>\<open>MetadataAsOperation\<close>: \<open>Inl\<close> is the decoding error.\<close>

record operation =
  Resources :: "string list gomap"
  Metadata :: "jvalue gomap"
  Err :: string

record response =
  Operation :: string
  MetadataAsOperation :: "string + operation"

text \<open>\<^verbatim>\<open>*lxd.Client\<close>: the remote it was made for, and its certificate.\<close>

record client =
  Name :: string
  Certificate :: string

subsection \<open>String helpers of the Go library\<close>

text \<open>\<^verbatim>\<open>strings.Split(s, sep)\<close> for a separator of one byte. The result is never
  empty: \<^verbatim>\<open>Split("", "/")\<close> is the list of one empty string. So the first branch
  of the case below is never taken (\<open>Split_not_Nil\<close>).\<close>

fun Split :: "string \<Rightarrow> char \<Rightarrow> string list" where
  "Split [] sep = [[]]"
| "Split (c # s) sep =
     (if c = sep then [] # Split s sep
      else (case Split s sep of
              [] \<Rightarrow> [[c]]
            | w # ws \<Rightarrow> (c # w) # ws))"

text \<open>\<^verbatim>\<open>strings.HasPrefix\<close>.\<close>

definition HasPrefix :: "string \<Rightarrow> string \<Rightarrow> bool" where
  "HasPrefix s p = prefix p s"

subsection \<open>Merging the replicable state (lines 95 to 113)\<close>

text \<open>\<^verbatim>\<open>status.Profiles = append(status.Profiles, c.profArgs...)\<close>, when
  \<^verbatim>\<open>c.profArgs\<close> is not nil.\<close>

definition appendProfiles :: "string list option \<Rightarrow> string list \<Rightarrow> string list" where
  "appendProfiles pa ps = (case pa of None \<Rightarrow> ps | Some extra \<Rightarrow> ps @ extra)"

text \<open>The loop \<^verbatim>\<open>for key, value := range configMap { status.Config[key] = value }\<close>,
  when \<^verbatim>\<open>configMap\<close> is not nil. A write to a nil map panics, so a nil
  \<^verbatim>\<open>status.Config\<close> survives only a loop of no iterations.\<close>

definition mergeConfig ::
  "string gomap option \<Rightarrow> string gomap option \<Rightarrow> string + string gomap option" where
  "mergeConfig configMap cfg =
     (case configMap of
        None \<Rightarrow> Inr cfg
      | Some cm \<Rightarrow>
          (case cfg of
             None \<Rightarrow> if cm = fmempty then Inr None
                     else Inl ''assignment to entry in nil map''
           | Some m \<Rightarrow> Inr (Some (m ++\<^sub>f cm))))"

text \<open>\<^verbatim>\<open>status.Config["volatile.base_image"]\<close>: a missing key, or a nil map, reads
  as the empty string.\<close>

definition lookupString :: "string gomap option \<Rightarrow> string \<Rightarrow> string" where
  "lookupString cfg k =
     (case cfg of
        None \<Rightarrow> ''''
      | Some m \<Rightarrow> (case fmlookup m k of None \<Rightarrow> '''' | Some v \<Rightarrow> v))"

text \<open>The loop that deletes every key with the prefix \<^verbatim>\<open>volatile\<close>. Ranging over
  a nil map does nothing.\<close>

definition dropVolatile :: "string gomap option \<Rightarrow> string gomap option" where
  "dropVolatile cfg =
     map_option (fmfilter (\<lambda>k. \<not> HasPrefix k ''volatile'')) cfg"

text \<open>Lines 95 to 113 together: the new \<^verbatim>\<open>status\<close> and \<^verbatim>\<open>baseImage\<close>, or the
  panic.\<close>

definition mergeState ::
  "copyCmd \<Rightarrow> string gomap option \<Rightarrow> bool \<Rightarrow> status \<Rightarrow> string + (status \<times> string)" where
  "mergeState c configMap keepVolatile st =
     (let profiles = appendProfiles (profArgs c) (Profiles st) in
      case mergeConfig configMap (Config st) of
        Inl p \<Rightarrow> Inl p
      | Inr cfg \<Rightarrow>
          (let baseImage = lookupString cfg ''volatile.base_image'';
               cfg' = (if \<not> keepVolatile then dropVolatile cfg else cfg)
           in Inr (st\<lparr>Profiles := profiles, Config := cfg'\<rparr>, baseImage)))"

subsection \<open>Reporting the created container (lines 131 to 144 and 255 to 268)\<close>

text \<open>The two blocks are the same text, one on the response of the local copy and one
  on the response of the accepted handshake. The result is what the function returns
  there and what it prints.\<close>

definition reportName :: "string \<Rightarrow> response \<Rightarrow> outcome \<times> string list" where
  "reportName destResource resp =
     (if destResource = [] then
        (case MetadataAsOperation resp of
           Inl e \<Rightarrow> (Return (Some ErrNoResource), [])
         | Inr op \<Rightarrow>
             (case fmlookup (Resources op) ''containers'' of
                None \<Rightarrow> (Return (Some ErrNoResource), [])
              | Some containers \<Rightarrow>
                  (if length containers = 0 then (Return (Some ErrNoResource), [])
                   else
                     (let fields = Split (containers ! 0) CHR ''/'' in
                      if length fields = 0 then (Panic ''index out of range'', [])
                      else
                        (Return None,
                         [''Container name is: '' @ fields ! (length fields - 1)
                            @ [CHR 0x0A]])))))
      else (Return None, []))"

subsection \<open>The client library as an environment\<close>

text \<open>The arguments of \<^verbatim>\<open>dest.MigrateFrom\<close> at line 222, in the order of the call.\<close>

record migrateArgs =
  mf_name :: string
  mf_operation :: string
  mf_certificate :: string
  mf_secrets :: "string gomap"
  mf_architecture :: string
  mf_config :: "string gomap option"
  mf_devices :: "string gomap gomap"
  mf_profiles :: "string list"
  mf_baseImage :: string
  mf_ephem :: bool
  mf_push :: bool
  mf_sourceClient :: client
  mf_sourceOperation :: string
  mf_containerOnly :: bool

text \<open>One entry of the log for every call of the client library, with the receiver and
  the arguments.\<close>

datatype call =
    CallNewClient string
  | CallContainerInfo client string
  | CallSnapshotInfo client string
  | CallLocalCopy client string string "string gomap option" "string list" bool bool
  | CallWaitForSuccess client string
  | CallListProfiles client
  | CallGetMigrationSourceWS client string bool bool
  | CallAddresses client
  | CallMigrateFrom client migrateArgs
  | CallGetOperation client string

text \<open>
  The environment. \<^verbatim>\<open>ParseRemoteAndContainer\<close> (a method of \<^verbatim>\<open>*lxd.Config\<close>),
  \<^verbatim>\<open>shared.IsSnapshot\<close> and the package variable \<^verbatim>\<open>configMap\<close> are not in this
  file of the repository and are parameters. Each method of the client answers from the
  log so far and its arguments; an error is \<open>Inl\<close> with its message.
  \<^verbatim>\<open>ListProfiles\<close> answers with the \<^verbatim>\<open>Name\<close> of each profile, the one field the
  function reads. \<^verbatim>\<open>WaitForSuccess\<close> is assumed to return. \<open>sourceFirst\<close> is the
  scheduler: whether, of the two waiters of one attempt, the one of the source sends on
  the channel first.
\<close>

record env =
  ParseRemoteAndContainer :: "string \<Rightarrow> string \<times> string"
  IsSnapshot :: "string \<Rightarrow> bool"
  configMap :: "string gomap option"
  NewClient :: "call list \<Rightarrow> string \<Rightarrow> string + client"
  ContainerInfo :: "call list \<Rightarrow> client \<Rightarrow> string \<Rightarrow> string + container"
  SnapshotInfo :: "call list \<Rightarrow> client \<Rightarrow> string \<Rightarrow> string + status"
  LocalCopy :: "call list \<Rightarrow> client \<Rightarrow> string \<Rightarrow> string \<Rightarrow> string gomap option
                 \<Rightarrow> string list \<Rightarrow> bool \<Rightarrow> bool \<Rightarrow> string + response"
  WaitForSuccess :: "call list \<Rightarrow> client \<Rightarrow> string \<Rightarrow> string option"
  ListProfiles :: "call list \<Rightarrow> client \<Rightarrow> string + string list"
  GetMigrationSourceWS :: "call list \<Rightarrow> client \<Rightarrow> string \<Rightarrow> bool \<Rightarrow> bool
                 \<Rightarrow> string + response"
  Addresses :: "call list \<Rightarrow> client \<Rightarrow> string + string list"
  MigrateFrom :: "call list \<Rightarrow> client \<Rightarrow> migrateArgs \<Rightarrow> string + response"
  GetOperation :: "call list \<Rightarrow> client \<Rightarrow> string \<Rightarrow> string + operation"
  sourceFirst :: "call list \<Rightarrow> bool"

text \<open>What a run of the function gives: how it ends, the log, the lines printed.\<close>

type_synonym execution = "outcome \<times> call list \<times> string list"

subsection \<open>Names, source lookup and merge (lines 43 to 113)\<close>

text \<open>The lookup of the source at lines 72 to 93: the result, and the log with the call.\<close>

definition fetchStatus ::
  "env \<Rightarrow> call list \<Rightarrow> client \<Rightarrow> string \<Rightarrow> (string + status) \<times> call list" where
  "fetchStatus env t src name =
     (if \<not> IsSnapshot env name then
        (case ContainerInfo env t src name of
           Inl err \<Rightarrow> (Inl err, t @ [CallContainerInfo src name])
         | Inr result \<Rightarrow>
             (Inr \<lparr>Architecture = Architecture result, Devices = Devices result,
                   Config = Config result, Profiles = Profiles result\<rparr>,
              t @ [CallContainerInfo src name]))
      else
        (case SnapshotInfo env t src name of
           Inl err \<Rightarrow> (Inl err, t @ [CallSnapshotInfo src name])
         | Inr result \<Rightarrow>
             (Inr \<lparr>Architecture = Architecture result, Devices = Devices result,
                   Config = Config result, Profiles = Profiles result\<rparr>,
              t @ [CallSnapshotInfo src name])))"

text \<open>The locals in scope at line 115, where the function branches on the remotes.\<close>

record prepared =
  sourceRemote :: string
  sourceName :: string
  destRemote :: string
  destName :: string
  source :: client
  state :: status
  baseImage :: string

text \<open>Lines 43 to 113: \<open>Inl\<close> when the function has ended there, otherwise the locals
  and the log.\<close>

definition resolve ::
  "env \<Rightarrow> copyCmd \<Rightarrow> string \<Rightarrow> string \<Rightarrow> bool \<Rightarrow> execution + (prepared \<times> call list)" where
  "resolve env c sourceResource dResource keepVolatile =
     (case ParseRemoteAndContainer env sourceResource of (sRemote, sName) \<Rightarrow>
      case ParseRemoteAndContainer env dResource of (dRemote, dName0) \<Rightarrow>
      if sName = [] then Inl (Return (Some ErrNoSourceName), [], [])
      else
     (let dName = (if dName0 = [] \<and> dResource \<noteq> [] then sName else dName0);
          t1 = [CallNewClient sRemote] in
      case NewClient env [] sRemote of
        Inl err \<Rightarrow> Inl (Return (Some (Upstream err)), t1, [])
      | Inr src \<Rightarrow>
     (case fetchStatus env t1 src sName of
        (Inl err, t2) \<Rightarrow> Inl (Return (Some (Upstream err)), t2, [])
      | (Inr status0, t2) \<Rightarrow>
     (case mergeState c (configMap env) keepVolatile status0 of
        Inl p \<Rightarrow> Inl (Panic p, t2, [])
      | Inr (st, bImage) \<Rightarrow>
          Inr (\<lparr>sourceRemote = sRemote, sourceName = sName, destRemote = dRemote,
                destName = dName, source = src, state = st, baseImage = bImage\<rparr>,
               t2)))))"

subsection \<open>The local copy (lines 117 to 146)\<close>

definition localCopy ::
  "env \<Rightarrow> call list \<Rightarrow> prepared \<Rightarrow> string \<Rightarrow> int \<Rightarrow> bool \<Rightarrow> execution" where
  "localCopy env t p dResource eph cOnly =
     (if sourceName p = destName p then (Return (Some ErrSameName), t, [])
      else
        (let t1 = t @ [CallLocalCopy (source p) (sourceName p) (destName p)
                         (Config (state p)) (Profiles (state p)) (eph = 1) cOnly] in
         case LocalCopy env t (source p) (sourceName p) (destName p)
                (Config (state p)) (Profiles (state p)) (eph = 1) cOnly of
           Inl err \<Rightarrow> (Return (Some (Upstream err)), t1, [])
         | Inr cp \<Rightarrow>
             (let t2 = t1 @ [CallWaitForSuccess (source p) (Operation cp)] in
              case WaitForSuccess env t1 (source p) (Operation cp) of
                Some err \<Rightarrow> (Return (Some (Upstream err)), t2, [])
              | None \<Rightarrow>
                  (case reportName dResource cp of (r, out) \<Rightarrow> (r, t2, out)))))"

subsection \<open>The secrets of the session (lines 188 to 197)\<close>

text \<open>The loop \<^verbatim>\<open>for k, v := range op.Metadata { secrets[k] = v.(string) }\<close> over the
  entries in the order the runtime yields them. The assertion has no second result, so
  a value that is not a string panics.\<close>

fun secretsLoop :: "(string \<times> jvalue) list \<Rightarrow> string gomap \<Rightarrow> string + string gomap" where
  "secretsLoop [] secs = Inr secs"
| "secretsLoop ((k, v) # kvs) secs =
     (case v of
        JString s \<Rightarrow> secretsLoop kvs (fmupd k s secs)
      | _ \<Rightarrow> Inl ''interface conversion: interface {} is not string'')"

text \<open>Go leaves the order of \<^verbatim>\<open>range\<close> over a map open. The model ranges in the order
  of the keys; \<open>secretsLoop_any_order\<close> below shows that every other order gives the
  same result.\<close>

definition secretsOf :: "jvalue gomap \<Rightarrow> string + string gomap" where
  "secretsOf md = secretsLoop (sorted_list_of_fmap md) fmempty"

subsection \<open>Before the loop (lines 149 to 202)\<close>

text \<open>The locals that the loop over the addresses reads and never writes.\<close>

record locals = prepared +
  destResource :: string
  dest :: client
  ephemeral :: int
  contOnly :: bool
  secrets :: "string gomap"
  sourceWSResponse :: response

text \<open>The second read of the source at lines 170 to 181, when \<^verbatim>\<open>ephemeral\<close> is -1.\<close>

definition resolveEphemeral ::
  "env \<Rightarrow> call list \<Rightarrow> client \<Rightarrow> string \<Rightarrow> int \<Rightarrow> (string + int) \<times> call list" where
  "resolveEphemeral env t src name eph =
     (if eph = -1 then
        (case ContainerInfo env t src name of
           Inl err \<Rightarrow> (Inl err, t @ [CallContainerInfo src name])
         | Inr ct \<Rightarrow> (Inr (if Ephemeral ct then 1 else 0), t @ [CallContainerInfo src name]))
      else (Inr eph, t))"

text \<open>Lines 149 to 202: \<open>Inl\<close> when the function has ended there, otherwise the locals,
  the addresses and the log. \<^verbatim>\<open>shared.NewStringSet\<close> and \<^verbatim>\<open>IsSubset\<close> at lines 154 and
  166 are the sets of the two lists of names and their inclusion.\<close>

definition negotiate ::
  "env \<Rightarrow> call list \<Rightarrow> prepared \<Rightarrow> string \<Rightarrow> int \<Rightarrow> bool \<Rightarrow> bool
     \<Rightarrow> execution + (locals \<times> string list \<times> call list)" where
  "negotiate env t p dResource eph stateful cOnly =
     (let t1 = t @ [CallNewClient (destRemote p)] in
      case NewClient env t (destRemote p) of
        Inl err \<Rightarrow> Inl (Return (Some (Upstream err)), t1, [])
      | Inr dst \<Rightarrow>
     (let t2 = t1 @ [CallListProfiles dst] in
      case ListProfiles env t1 dst of
        Inl err \<Rightarrow> Inl (Return (Some (Upstream err)), t2, [])
      | Inr destProfs \<Rightarrow>
     (if \<not> set (Profiles (state p)) \<subseteq> set destProfs
      then Inl (Return (Some ErrProfiles), t2, [])
      else
     (case resolveEphemeral env t2 (source p) (sourceName p) eph of
        (Inl err, t3) \<Rightarrow> Inl (Return (Some (Upstream err)), t3, [])
      | (Inr eph', t3) \<Rightarrow>
     (let t4 = t3 @ [CallGetMigrationSourceWS (source p) (sourceName p) stateful cOnly] in
      case GetMigrationSourceWS env t3 (source p) (sourceName p) stateful cOnly of
        Inl err \<Rightarrow> Inl (Return (Some (Upstream err)), t4, [])
      | Inr wsResponse \<Rightarrow>
     (case MetadataAsOperation wsResponse of
        Inl err \<Rightarrow> Inl (Return (Some (Upstream err)), t4, [])
      | Inr op \<Rightarrow>
     (case secretsOf (Metadata op) of
        Inl pn \<Rightarrow> Inl (Panic pn, t4, [])
      | Inr secs \<Rightarrow>
     (let t5 = t4 @ [CallAddresses (source p)] in
      case Addresses env t4 (source p) of
        Inl err \<Rightarrow> Inl (Return (Some (Upstream err)), t5, [])
      | Inr addresses \<Rightarrow>
          Inr (\<lparr>sourceRemote = sourceRemote p, sourceName = sourceName p,
                destRemote = destRemote p, destName = destName p, source = source p,
                state = state p, baseImage = baseImage p,
                destResource = dResource, dest = dst, ephemeral = eph', contOnly = cOnly,
                secrets = secs, sourceWSResponse = wsResponse\<rparr>,
               addresses, t5)))))))))"

subsection \<open>One attempt: the two waiters and the channel (lines 212 to 245)\<close>

text \<open>The closure \<^verbatim>\<open>wait\<close>: the message it sends is a map of one entry, from the
  sender's id to the result of \<^verbatim>\<open>WaitForSuccess\<close>.\<close>

definition wait ::
  "env \<Rightarrow> call list \<Rightarrow> client \<Rightarrow> string \<Rightarrow> int \<Rightarrow> (int, string option) fmap" where
  "wait env t cli op senderid = fmupd senderid (WaitForSuccess env t cli op) fmempty"

text \<open>The receiving loop, once per message: \<^verbatim>\<open>err, ok := tmp[sourceOpId]\<close>, then
  \<^verbatim>\<open>sourceOpErr = err\<close> if \<^verbatim>\<open>ok\<close> and \<^verbatim>\<open>destOpErr = err\<close> otherwise. Where the key
  is missing, \<^verbatim>\<open>err\<close> is the zero value of \<^verbatim>\<open>error\<close>, nil. The state is the pair
  \<open>(sourceOpErr, destOpErr)\<close>.\<close>

fun receive ::
  "int \<Rightarrow> (int, string option) fmap list \<Rightarrow> string option \<times> string option
     \<Rightarrow> string option \<times> string option" where
  "receive sourceOpId [] (sourceOpErr, destOpErr) = (sourceOpErr, destOpErr)"
| "receive sourceOpId (tmp # ch) (sourceOpErr, destOpErr) =
     (case fmlookup tmp sourceOpId of
        Some err \<Rightarrow> receive sourceOpId ch (err, destOpErr)
      | None \<Rightarrow> receive sourceOpId ch (sourceOpErr, None))"

subsection \<open>The loop over the addresses (lines 217 to 281)\<close>

definition migrateArgsFor :: "locals \<Rightarrow> string \<Rightarrow> migrateArgs" where
  "migrateArgsFor x addr =
     \<lparr>mf_name = destName x,
      mf_operation = ''https://'' @ addr @ Operation (sourceWSResponse x),
      mf_certificate = Certificate (source x),
      mf_secrets = secrets x,
      mf_architecture = Architecture (state x),
      mf_config = Config (state x),
      mf_devices = Devices (state x),
      mf_profiles = Profiles (state x),
      mf_baseImage = baseImage x,
      mf_ephem = (ephemeral x = 1),
      mf_push = False,
      mf_sourceClient = source x,
      mf_sourceOperation = Operation (sourceWSResponse x),
      mf_containerOnly = contOnly x\<rparr>"

text \<open>Lines 273 to 280, reached when the loop has run out of addresses.\<close>

definition afterLoop :: "env \<Rightarrow> locals \<Rightarrow> string option \<Rightarrow> call list \<Rightarrow> execution" where
  "afterLoop env x migrationErrFromClient t =
     (let t1 = t @ [CallGetOperation (source x) (Operation (sourceWSResponse x))] in
      case GetOperation env t (source x) (Operation (sourceWSResponse x)) of
        Inr sourceOp \<Rightarrow>
          (if Err sourceOp \<noteq> [] then (Return (Some (ErrSourceHost (Err sourceOp))), t1, [])
           else (Return (Some (ErrTargetHost migrationErrFromClient)), t1, []))
      | Inl sourceErr \<Rightarrow> (Return (Some (ErrTargetHost migrationErrFromClient)), t1, []))"

text \<open>The loop, with \<^verbatim>\<open>migrationErrFromClient\<close> and the log as its state. The two
  waiters answer from the log as it is after the handshake; their calls are logged in
  the order of the two \<^verbatim>\<open>go\<close> statements, and their messages arrive in the order the
  scheduler picks.\<close>

fun attempts :: "env \<Rightarrow> locals \<Rightarrow> string list \<Rightarrow> string option \<Rightarrow> call list \<Rightarrow> execution" where
  "attempts env x [] migrationErrFromClient t = afterLoop env x migrationErrFromClient t"
| "attempts env x (addr # addresses) migrationErrFromClient t =
     (let t1 = t @ [CallMigrateFrom (dest x) (migrateArgsFor x addr)] in
      case MigrateFrom env t (dest x) (migrateArgsFor x addr) of
        Inl err \<Rightarrow> attempts env x addresses (Some err) t1
      | Inr migration \<Rightarrow>
          (let destOpId = 0;
               sourceOpId = 1;
               fromDest = wait env t1 (dest x) (Operation migration) destOpId;
               fromSource = wait env t1 (source x) (Operation (sourceWSResponse x)) sourceOpId;
               t2 = t1 @ [CallWaitForSuccess (dest x) (Operation migration),
                          CallWaitForSuccess (source x) (Operation (sourceWSResponse x))];
               waitchan = (if sourceFirst env t1 then [fromSource, fromDest]
                           else [fromDest, fromSource]);
               (sourceOpErr, destOpErr) = receive sourceOpId waitchan (None, None)
           in if destOpErr \<noteq> None then attempts env x addresses None t2
              else
                (case sourceOpErr of
                   Some err \<Rightarrow> (Return (Some (Upstream err)), t2, [])
                 | None \<Rightarrow>
                     (case reportName (destResource x) migration of
                        (r, out) \<Rightarrow> (r, t2, out)))))"

subsection \<open>copyContainer and run\<close>

text \<open>The migration, lines 149 to 281.\<close>

definition migrate ::
  "env \<Rightarrow> call list \<Rightarrow> prepared \<Rightarrow> string \<Rightarrow> int \<Rightarrow> bool \<Rightarrow> bool \<Rightarrow> execution" where
  "migrate env t p dResource eph stateful cOnly =
     (case negotiate env t p dResource eph stateful cOnly of
        Inl ended \<Rightarrow> ended
      | Inr (x, addresses, t') \<Rightarrow> attempts env x addresses None t')"

definition copyContainer ::
  "env \<Rightarrow> copyCmd \<Rightarrow> string \<Rightarrow> string \<Rightarrow> bool \<Rightarrow> int \<Rightarrow> bool \<Rightarrow> bool \<Rightarrow> execution" where
  "copyContainer env c sourceResource dResource keepVolatile eph stateful cOnly =
     (case resolve env c sourceResource dResource keepVolatile of
        Inl ended \<Rightarrow> ended
      | Inr (p, t) \<Rightarrow>
          if sourceRemote p = destRemote p then localCopy env t p dResource eph cOnly
          else migrate env t p dResource eph stateful cOnly)"

definition run :: "env \<Rightarrow> copyCmd \<Rightarrow> string list \<Rightarrow> execution" where
  "run env c args =
     (if length args < 1 then (Return (Some ErrArgs), [], [])
      else
        (let ephemInt = (if ephem c then 1 else 0) in
         if length args < 2 then
           copyContainer env c (args ! 0) [] False ephemInt False (containerOnly c)
         else
           copyContainer env c (args ! 0) (args ! 1) False ephemInt False (containerOnly c)))"

subsection \<open>Reading an execution\<close>

definition ended :: "execution \<Rightarrow> outcome" where
  "ended r = fst r"

definition calls :: "execution \<Rightarrow> call list" where
  "calls r = fst (snd r)"

definition printed :: "execution \<Rightarrow> string list" where
  "printed r = snd (snd r)"

text \<open>The handshakes of a log, in order, and the configuration maps a log sends to an
  endpoint (with a copy request or with a handshake).\<close>

fun handshakes :: "call list \<Rightarrow> migrateArgs list" where
  "handshakes [] = []"
| "handshakes (CallMigrateFrom cli a # t) = a # handshakes t"
| "handshakes (other # t) = handshakes t"

fun sentConfigs :: "call list \<Rightarrow> string gomap option list" where
  "sentConfigs [] = []"
| "sentConfigs (CallMigrateFrom cli a # t) = mf_config a # sentConfigs t"
| "sentConfigs (CallLocalCopy cli src dst cfg profs e co # t) = cfg # sentConfigs t"
| "sentConfigs (other # t) = sentConfigs t"

fun isListProfiles :: "call \<Rightarrow> bool" where
  "isListProfiles (CallListProfiles cli) = True"
| "isListProfiles other = False"

fun isGetMigrationSourceWS :: "call \<Rightarrow> bool" where
  "isGetMigrationSourceWS (CallGetMigrationSourceWS cli n s co) = True"
| "isGetMigrationSourceWS other = False"

text \<open>No key of the map has the prefix \<^verbatim>\<open>volatile\<close>.\<close>

definition noVolatile :: "string gomap option \<Rightarrow> bool" where
  "noVolatile cfg =
     (case cfg of None \<Rightarrow> True | Some m \<Rightarrow> fmpred (\<lambda>k v. \<not> HasPrefix k ''volatile'') m)"

text \<open>Whether a decoded value is a string, and the string it is.\<close>

fun isString :: "jvalue \<Rightarrow> bool" where
  "isString (JString s) = True"
| "isString other = False"

fun stringOf :: "jvalue \<Rightarrow> string" where
  "stringOf (JString s) = s"
| "stringOf other = []"

subsection \<open>A sample deployment\<close>

text \<open>Modelled from the spec: \<^verbatim>\<open>ParseRemoteAndContainer\<close> is a method of the client
  library's configuration and is not in this file. The spec has a locator of the form
  \<^verbatim>\<open>endpoint:name\<close>, where an empty endpoint means the default endpoint. The first
  argument is the default endpoint.\<close>

definition parseLocator :: "string \<Rightarrow> string \<Rightarrow> string \<times> string" where
  "parseLocator defaultRemote raw =
     (if CHR '':'' \<in> set raw then
        (let endpoint = takeWhile (\<lambda>ch. ch \<noteq> CHR '':'') raw;
             name = tl (dropWhile (\<lambda>ch. ch \<noteq> CHR '':'') raw)
         in (if endpoint = [] then defaultRemote else endpoint, name))
      else (defaultRemote, raw))"

text \<open>Modelled from the spec: \<^verbatim>\<open>shared.IsSnapshot\<close> is not in this file. The spec
  writes a snapshot as \<^verbatim>\<open>name/snapshot\<close>.\<close>

definition nameIsSnapshot :: "string \<Rightarrow> bool" where
  "nameIsSnapshot name = (CHR ''/'' \<in> set name)"

definition sampleCmd :: copyCmd where
  "sampleCmd = \<lparr>profArgs = None, confArgs = None, ephem = False, containerOnly = False\<rparr>"

definition sampleContainer :: container where
  "sampleContainer =
     \<lparr>Architecture = ''x86_64'', Devices = fmempty,
      Config = Some (fmap_of_list [(''volatile.base_image'', ''img1''), (''limits.cpu'', ''2'')]),
      Profiles = [''default''], Ephemeral = True\<rparr>"

definition sampleCopy :: response where
  "sampleCopy =
     \<lparr>Operation = ''/1.0/operations/cp'',
      MetadataAsOperation =
        Inr \<lparr>Resources = fmap_of_list [(''containers'', [''/1.0/containers/happy-cat''])],
             Metadata = fmempty, Err = []\<rparr>\<rparr>"

definition sampleSession :: response where
  "sampleSession =
     \<lparr>Operation = ''/1.0/operations/mig'',
      MetadataAsOperation =
        Inr \<lparr>Resources = fmempty,
             Metadata = fmap_of_list [(''control'', JString ''s1''), (''fs'', JString ''s2'')],
             Err = []\<rparr>\<rparr>"

definition sampleMigration :: response where
  "sampleMigration =
     \<lparr>Operation = ''/1.0/operations/recv'',
      MetadataAsOperation =
        Inr \<lparr>Resources = fmap_of_list [(''containers'', [''/1.0/containers/c2''])],
             Metadata = fmempty, Err = []\<rparr>\<rparr>"

text \<open>Two endpoints, \<^verbatim>\<open>local\<close> (the default) and any other. The source has two
  addresses, and only the handshake through the second is accepted. Every wait
  succeeds.\<close>

definition sampleEnv :: env where
  "sampleEnv =
     \<lparr>ParseRemoteAndContainer = parseLocator ''local'',
      IsSnapshot = nameIsSnapshot,
      configMap = None,
      NewClient = (\<lambda>t remote. Inr \<lparr>Name = remote, Certificate = ''cert''\<rparr>),
      ContainerInfo = (\<lambda>t cli name. Inr sampleContainer),
      SnapshotInfo = (\<lambda>t cli name. Inl ''not found''),
      LocalCopy = (\<lambda>t cli src dst cfg profs e co. Inr sampleCopy),
      WaitForSuccess = (\<lambda>t cli op. None),
      ListProfiles = (\<lambda>t cli. Inr [''default'']),
      GetMigrationSourceWS = (\<lambda>t cli name stateful co. Inr sampleSession),
      Addresses = (\<lambda>t cli. Inr [''10.0.0.1:8443'', ''10.0.0.2:8443'']),
      MigrateFrom = (\<lambda>t cli a.
         if mf_operation a = ''https://10.0.0.2:8443/1.0/operations/mig''
         then Inr sampleMigration else Inl ''bad handshake''),
      GetOperation = (\<lambda>t cli op. Inr \<lparr>Resources = fmempty, Metadata = fmempty, Err = []\<rparr>),
      sourceFirst = (\<lambda>t. False)\<rparr>"

text \<open>A session whose metadata holds a number under \<^verbatim>\<open>fs\<close>.\<close>

definition badSession :: response where
  "badSession =
     sampleSession\<lparr>MetadataAsOperation :=
        Inr \<lparr>Resources = fmempty,
             Metadata = fmap_of_list [(''control'', JString ''s1''), (''fs'', JNumber 2)],
             Err = []\<rparr>\<rparr>"

text \<open>The values of the locals in the sample deployment, for the request to copy
  \<^verbatim>\<open>c1\<close> to \<^verbatim>\<open>remote:c2\<close>.\<close>

definition sampleSource :: client where
  "sampleSource = \<lparr>Name = ''local'', Certificate = ''cert''\<rparr>"

definition sampleDest :: client where
  "sampleDest = \<lparr>Name = ''remote'', Certificate = ''cert''\<rparr>"

definition sampleState :: status where
  "sampleState =
     \<lparr>Architecture = ''x86_64'', Devices = fmempty,
      Config = Some (fmap_of_list [(''limits.cpu'', ''2'')]), Profiles = [''default'']\<rparr>"

definition samplePrepared :: prepared where
  "samplePrepared =
     \<lparr>sourceRemote = ''local'', sourceName = ''c1'', destRemote = ''remote'',
      destName = ''c2'', source = sampleSource, state = sampleState, baseImage = ''img1''\<rparr>"

definition sampleLocals :: locals where
  "sampleLocals =
     \<lparr>sourceRemote = ''local'', sourceName = ''c1'', destRemote = ''remote'',
      destName = ''c2'', source = sampleSource, state = sampleState, baseImage = ''img1'',
      destResource = ''remote:c2'', dest = sampleDest, ephemeral = 0, contOnly = False,
      secrets = fmap_of_list [(''control'', ''s1''), (''fs'', ''s2'')],
      sourceWSResponse = sampleSession\<rparr>"

definition sampleLog0 :: "call list" where
  "sampleLog0 = [CallNewClient ''local'', CallContainerInfo sampleSource ''c1'']"

definition sampleLog :: "call list" where
  "sampleLog =
     sampleLog0 @
     [CallNewClient ''remote'', CallListProfiles sampleDest,
      CallGetMigrationSourceWS sampleSource ''c1'' False False, CallAddresses sampleSource]"

definition sampleArgs :: "string \<Rightarrow> bool \<Rightarrow> migrateArgs" where
  "sampleArgs addr e =
     \<lparr>mf_name = ''c2'',
      mf_operation = ''https://'' @ addr @ ''/1.0/operations/mig'',
      mf_certificate = ''cert'',
      mf_secrets = fmap_of_list [(''control'', ''s1''), (''fs'', ''s2'')],
      mf_architecture = ''x86_64'',
      mf_config = Some (fmap_of_list [(''limits.cpu'', ''2'')]),
      mf_devices = fmempty, mf_profiles = [''default''],
      mf_baseImage = ''img1'', mf_ephem = e, mf_push = False,
      mf_sourceClient = sampleSource,
      mf_sourceOperation = ''/1.0/operations/mig'',
      mf_containerOnly = False\<rparr>"

text \<open>The sample deployment where the destination accepts every handshake and then
  fails its own operation, while the operation of the source succeeds.\<close>

definition destWaitFailsEnv :: env where
  "destWaitFailsEnv =
     sampleEnv\<lparr>MigrateFrom := (\<lambda>t cli a. Inr sampleMigration),
               WaitForSuccess := (\<lambda>t cli op.
                 if Name cli = ''remote'' then Some ''target storage failure'' else None)\<rparr>"

text \<open>The same with one address only, and a source operation whose status carries an
  error text.\<close>

definition oneAddressEnv :: env where
  "oneAddressEnv =
     destWaitFailsEnv\<lparr>Addresses := (\<lambda>t cli. Inr [''10.0.0.1:8443'']),
                      GetOperation := (\<lambda>t cli op.
                        Inr \<lparr>Resources = fmempty, Metadata = fmempty,
                             Err = ''transfer aborted''\<rparr>)\<rparr>"

text \<open>The sample deployment where the destination has no profile \<^verbatim>\<open>default\<close>.\<close>

definition otherProfilesEnv :: env where
  "otherProfilesEnv = sampleEnv\<lparr>ListProfiles := (\<lambda>t cli. Inr [''web''])\<rparr>"

text \<open>The sample deployment where the response to the accepted handshake lists no
  created container.\<close>

definition noResourceEnv :: env where
  "noResourceEnv =
     sampleEnv\<lparr>MigrateFrom := (\<lambda>t cli a.
        if mf_operation a = ''https://10.0.0.2:8443/1.0/operations/mig''
        then Inr sampleSession else Inl ''bad handshake'')\<rparr>"


section \<open>Properties\<close>

subsection \<open>Splitting a path\<close>

lemma Split_not_Nil: "Split s sep \<noteq> []"
  by (induction s) (auto split: list.splits)

lemma last_Split_no_sep: "sep \<notin> set (last (Split s sep))"
proof (induction s)
  case Nil
  then show ?case by simp
next
  case (Cons c s)
  then show ?case
    by (cases "Split s sep") (auto simp: Split_not_Nil)
qed

lemma Split_shape:
  "(tl (Split s sep) = [] \<longrightarrow> hd (Split s sep) = s) \<and>
   (tl (Split s sep) \<noteq> [] \<longrightarrow> (\<exists>p. s = p @ sep # last (Split s sep)))"
proof (induction s)
  case Nil
  then show ?case by simp
next
  case (Cons c s)
  obtain w ws where sp: "Split s sep = w # ws"
    by (cases "Split s sep") (simp_all add: Split_not_Nil)
  show ?case
  proof (cases "c = sep")
    case True
    show ?thesis
    proof (cases ws)
      case Nil
      with Cons.IH sp have "w = s" by simp
      with True sp Nil have "c # s = [] @ sep # last (Split (c # s) sep)" by simp
      then have "\<exists>p. c # s = p @ sep # last (Split (c # s) sep)" by blast
      with True sp show ?thesis by simp
    next
      case (Cons v vs)
      with Cons.IH sp obtain p where "s = p @ sep # last (Split s sep)" by auto
      with True sp have "c # s = (c # p) @ sep # last (Split (c # s) sep)" by simp
      then have "\<exists>p. c # s = p @ sep # last (Split (c # s) sep)" by blast
      with True sp show ?thesis by simp
    qed
  next
    case False
    show ?thesis
    proof (cases ws)
      case Nil
      with Cons.IH sp False show ?thesis by simp
    next
      case (Cons v vs)
      with Cons.IH sp obtain p where "s = p @ sep # last (Split s sep)" by auto
      with False sp Cons have "c # s = (c # p) @ sep # last (Split (c # s) sep)" by simp
      then have "\<exists>p. c # s = p @ sep # last (Split (c # s) sep)" by blast
      with False sp Cons show ?thesis by simp
    qed
  qed
qed

lemma last_Split_after_sep:
  "s = last (Split s sep) \<or> (\<exists>p. s = p @ sep # last (Split s sep))"
proof (cases "tl (Split s sep) = []")
  case True
  then have "Split s sep = [hd (Split s sep)]"
    by (cases "Split s sep") (simp_all add: Split_not_Nil)
  with True Split_shape [of s sep] have "last (Split s sep) = s"
    by (metis last.simps)
  then show ?thesis by simp
next
  case False
  with Split_shape [of s sep] show ?thesis by blast
qed

subsection \<open>The secrets loop\<close>

lemma secretsLoop_acc:
  "distinct (map fst kvs) \<Longrightarrow>
   secretsLoop kvs acc =
     (if list_all (\<lambda>(k, v). isString v) kvs
      then Inr (acc ++\<^sub>f fmmap stringOf (fmap_of_list kvs))
      else Inl ''interface conversion: interface {} is not string'')"
proof (induction kvs arbitrary: acc)
  case Nil
  then show ?case by simp
next
  case (Cons kv kvs)
  obtain k v where kv: "kv = (k, v)" by (cases kv)
  from Cons.prems kv have fresh: "k \<notin> fst ` set kvs" and dist: "distinct (map fst kvs)"
    by auto
  show ?case
  proof (cases v)
    case (JString s)
    have "fmupd k s acc ++\<^sub>f fmmap stringOf (fmap_of_list kvs)
          = acc ++\<^sub>f fmmap stringOf (fmupd k v (fmap_of_list kvs))"
    proof (rule fmap_ext)
      fix x
      show "fmlookup (fmupd k s acc ++\<^sub>f fmmap stringOf (fmap_of_list kvs)) x
            = fmlookup (acc ++\<^sub>f fmmap stringOf (fmupd k v (fmap_of_list kvs))) x"
        using fresh JString
        by (auto simp: fmlookup_of_list fset_of_list.rep_eq
                 map_of_eq_None_iff split: option.splits)
    qed
    with JString kv Cons.IH [OF dist, of "fmupd k s acc"] show ?thesis
      by simp
  qed (simp_all add: kv)
qed

lemma secretsLoop_any_order:
  assumes "distinct (map fst kvs)" and "fmap_of_list kvs = md"
  shows "secretsLoop kvs fmempty =
     (if fmpred (\<lambda>k v. isString v) md then Inr (fmmap stringOf md)
      else Inl ''interface conversion: interface {} is not string'')"
proof -
  have "list_all (\<lambda>(k, v). isString v) kvs = fmpred (\<lambda>k v. isString v) md"
    using assms
    by (auto simp: list_all_iff fmpred_iff fmlookup_of_list dest: map_of_SomeD)
  with secretsLoop_acc [OF assms(1), of fmempty] assms(2) show ?thesis
    by simp
qed

lemma sorted_list_enum: "distinct (map fst (sorted_list_of_fmap m)) \<and> fmap_of_list (sorted_list_of_fmap m) = m"
  apply (rule conjI)
   apply (simp add: sorted_list_of_fmap_def comp_def sorted_list_of_fset.rep_eq)
  apply (rule fmap_ext)
  apply (simp add: fmlookup_of_list)
  done

lemma secretsOf_eq: "secretsOf md =
     (if fmpred (\<lambda>k v. isString v) md then Inr (fmmap stringOf md)
      else Inl ''interface conversion: interface {} is not string'')"
  unfolding secretsOf_def using sorted_list_enum [of md] secretsLoop_any_order by blast


text \<open>
  C10. The secrets map is built by asserting, with no check, that each value of the
  source operation's metadata is a string. When every value is a string the extraction
  returns the map of those strings; when some value is not a string it panics; and the
  result is the same in whatever order the runtime ranges over the map.
\<close>

theorem secrets_need_strings:
  "(fmpred (\<lambda>k v. isString v) md \<longrightarrow> secretsOf md = Inr (fmmap stringOf md)) \<and>
   (\<not> fmpred (\<lambda>k v. isString v) md \<longrightarrow>
      secretsOf md = Inl ''interface conversion: interface {} is not string'') \<and>
   (\<forall>kvs. distinct (map fst kvs) \<and> fmap_of_list kvs = md \<longrightarrow>
      secretsLoop kvs fmempty = secretsOf md)"
  using secretsOf_eq [of md] secretsLoop_any_order [of _ md] by simp

theorem secrets_need_strings_witness:
  "\<not> fmpred (\<lambda>k v. isString v) (fmap_of_list [(''control'', JString ''s1''), (''fs'', JNumber 2)]) \<and>
   secretsOf (fmap_of_list [(''control'', JString ''s1''), (''fs'', JNumber 2)])
     = Inl ''interface conversion: interface {} is not string'' \<and>
   fmpred (\<lambda>k v. isString v) (fmap_of_list [(''control'', JString ''s1''), (''fs'', JString ''s2'')]) \<and>
   secretsOf (fmap_of_list [(''control'', JString ''s1''), (''fs'', JString ''s2'')])
     = Inr (fmap_of_list [(''control'', ''s1''), (''fs'', ''s2'')]) \<and>
   secretsLoop [(''fs'', JString ''s2''), (''control'', JString ''s1'')] fmempty
     = secretsOf (fmap_of_list [(''control'', JString ''s1''), (''fs'', JString ''s2'')]) \<and>
   ended (copyContainer (sampleEnv\<lparr>GetMigrationSourceWS := \<lambda>t cli name stateful co. Inr badSession\<rparr>)
      sampleCmd ''c1'' ''remote:c2'' False 0 False False)
     = Panic ''interface conversion: interface {} is not string''"
proof -
  let ?bad = "fmap_of_list [(''control'', JString ''s1''), (''fs'', JNumber 2)]"
  let ?good = "fmap_of_list [(''control'', JString ''s1''), (''fs'', JString ''s2'')]"
  have b: "\<not> fmpred (\<lambda>k v. isString v) ?bad"
    by (auto simp: fmpred_iff intro!: exI [of _ "''fs''"])
  have g: "fmpred (\<lambda>k v. isString v) ?good"
    by (auto simp: fmpred_iff split: if_splits)
  have sb: "secretsOf ?bad = Inl ''interface conversion: interface {} is not string''"
    using secrets_need_strings [of ?bad] b by blast
  have sg: "secretsOf ?good = Inr (fmmap stringOf ?good)"
    using secrets_need_strings [of ?good] g by blast
  have lo: "secretsLoop [(''fs'', JString ''s2''), (''control'', JString ''s1'')] fmempty
     = secretsOf ?good"
  proof -
    have "fmap_of_list [(''fs'', JString ''s2''), (''control'', JString ''s1'')] = ?good"
      by (rule fmap_ext) auto
    moreover have "distinct (map fst [(''fs'', JString ''s2''), (''control'', JString ''s1'')])"
      by simp
    ultimately show ?thesis
      using secrets_need_strings [of ?good] by blast
  qed
  have run: "ended (copyContainer (sampleEnv\<lparr>GetMigrationSourceWS := \<lambda>t cli name stateful co. Inr badSession\<rparr>)
      sampleCmd ''c1'' ''remote:c2'' False 0 False False)
     = Panic ''interface conversion: interface {} is not string''"
    using sb
    by (simp add: ended_def copyContainer_def resolve_def sampleEnv_def parseLocator_def
        fetchStatus_def nameIsSnapshot_def sampleContainer_def mergeState_def sampleCmd_def
        appendProfiles_def mergeConfig_def lookupString_def dropVolatile_def migrate_def
        negotiate_def resolveEphemeral_def badSession_def sampleSession_def)
  show ?thesis using b g sb sg lo run by (simp add: fmmap_of_list)
qed


subsection \<open>One step of the loop over the addresses\<close>

lemma receive_two:
  "receive 1 (if b then [fmupd 1 s fmempty, fmupd 0 d fmempty]
              else [fmupd 0 d fmempty, fmupd 1 s fmempty]) (None, None) = (s, None)"
  by simp

lemma attempts_rejected:
  "MigrateFrom env t (dest x) (migrateArgsFor x addr) = Inl e \<Longrightarrow>
   attempts env x (addr # rest) m t =
     attempts env x rest (Some e) (t @ [CallMigrateFrom (dest x) (migrateArgsFor x addr)])"
  by simp

lemma attempts_accepted:
  "MigrateFrom env t (dest x) (migrateArgsFor x addr) = Inr migration \<Longrightarrow>
   attempts env x (addr # rest) m t =
     (case WaitForSuccess env (t @ [CallMigrateFrom (dest x) (migrateArgsFor x addr)])
             (source x) (Operation (sourceWSResponse x)) of
        Some err \<Rightarrow>
          (Return (Some (Upstream err)),
           t @ [CallMigrateFrom (dest x) (migrateArgsFor x addr),
                CallWaitForSuccess (dest x) (Operation migration),
                CallWaitForSuccess (source x) (Operation (sourceWSResponse x))], [])
      | None \<Rightarrow>
          (fst (reportName (destResource x) migration),
           t @ [CallMigrateFrom (dest x) (migrateArgsFor x addr),
                CallWaitForSuccess (dest x) (Operation migration),
                CallWaitForSuccess (source x) (Operation (sourceWSResponse x))],
           snd (reportName (destResource x) migration)))"
  by (simp add: wait_def Let_def split: option.splits prod.splits)

lemma attempts_rejects:
  assumes "\<forall>i<length pre. \<exists>e.
     MigrateFrom env (t @ map (\<lambda>a. CallMigrateFrom (dest x) (migrateArgsFor x a)) (take i pre))
       (dest x) (migrateArgsFor x (pre ! i)) = Inl e"
  shows "\<exists>m'. attempts env x (pre @ rest) m t =
     attempts env x rest m'
       (t @ map (\<lambda>a. CallMigrateFrom (dest x) (migrateArgsFor x a)) pre)
     \<and> (pre = [] \<longrightarrow> m' = m)
     \<and> (pre \<noteq> [] \<longrightarrow>
          MigrateFrom env
            (t @ map (\<lambda>a. CallMigrateFrom (dest x) (migrateArgsFor x a)) (butlast pre))
            (dest x) (migrateArgsFor x (last pre)) = Inl (the m') \<and> m' \<noteq> None)"
  using assms
proof (induction pre arbitrary: m t)
  case Nil
  then show ?case by simp
next
  case (Cons a pre)
  let ?H = "\<lambda>a. CallMigrateFrom (dest x) (migrateArgsFor x a)"
  from Cons.prems [rule_format, of 0] obtain e where
    e: "MigrateFrom env t (dest x) (migrateArgsFor x a) = Inl e"
    by auto
  have step: "attempts env x ((a # pre) @ rest) m t
      = attempts env x (pre @ rest) (Some e) (t @ [?H a])"
    using e by simp
  have "\<forall>i<length pre. \<exists>e'.
     MigrateFrom env ((t @ [?H a]) @ map ?H (take i pre))
       (dest x) (migrateArgsFor x (pre ! i)) = Inl e'"
  proof (intro allI impI)
    fix i assume "i < length pre"
    then have "Suc i < length (a # pre)" by simp
    from Cons.prems [rule_format, OF this] show "\<exists>e'.
     MigrateFrom env ((t @ [?H a]) @ map ?H (take i pre))
       (dest x) (migrateArgsFor x (pre ! i)) = Inl e'"
      by simp
  qed
  from Cons.IH [OF this, of "Some e"] obtain m' where
    m': "attempts env x (pre @ rest) (Some e) (t @ [?H a]) =
           attempts env x rest m' ((t @ [?H a]) @ map ?H pre)"
        "pre = [] \<longrightarrow> m' = Some e"
        "pre \<noteq> [] \<longrightarrow>
          MigrateFrom env ((t @ [?H a]) @ map ?H (butlast pre))
            (dest x) (migrateArgsFor x (last pre)) = Inl (the m') \<and> m' \<noteq> None"
    by blast
  show ?case
  proof (intro exI [of _ m'] conjI impI)
    show "attempts env x ((a # pre) @ rest) m t = attempts env x rest m' (t @ map ?H (a # pre))"
      using step m'(1) by simp
  next
    assume "a # pre = []" then show "m' = m" by simp
  next
    assume "a # pre \<noteq> []"
    show "MigrateFrom env (t @ map ?H (butlast (a # pre))) (dest x)
            (migrateArgsFor x (last (a # pre))) = Inl (the m')"
      using m'(2,3) e by (cases "pre = []") simp_all
  next
    assume "a # pre \<noteq> []"
    show "m' \<noteq> None" using m'(2,3) by (cases "pre = []") simp_all
  qed
qed

text \<open>When every handshake is rejected the loop runs out of addresses, and the code
  after the loop reports with the error of the last handshake.\<close>

lemma attempts_all_rejected:
  assumes "\<forall>i<length addrs. \<exists>e.
     MigrateFrom env (t @ map (\<lambda>a. CallMigrateFrom (dest x) (migrateArgsFor x a)) (take i addrs))
       (dest x) (migrateArgsFor x (addrs ! i)) = Inl e"
  shows "\<exists>m'. attempts env x addrs m t =
     afterLoop env x m' (t @ map (\<lambda>a. CallMigrateFrom (dest x) (migrateArgsFor x a)) addrs)
     \<and> (addrs = [] \<longrightarrow> m' = m)
     \<and> (addrs \<noteq> [] \<longrightarrow>
          MigrateFrom env
            (t @ map (\<lambda>a. CallMigrateFrom (dest x) (migrateArgsFor x a)) (butlast addrs))
            (dest x) (migrateArgsFor x (last addrs)) = Inl (the m') \<and> m' \<noteq> None)"
  using attempts_rejects [OF assms, of "[]" m] by simp

subsection \<open>What a log holds\<close>

lemma handshakes_append: "handshakes (t @ u) = handshakes t @ handshakes u"
  by (induction t rule: handshakes.induct) simp_all

lemma sentConfigs_append: "sentConfigs (t @ u) = sentConfigs t @ sentConfigs u"
  by (induction t rule: sentConfigs.induct) simp_all

lemma handshakes_map:
  "handshakes (map (\<lambda>a. CallMigrateFrom cli (f a)) as) = map f as"
  by (induction as) simp_all

lemma sentConfigs_no_handshakes: "sentConfigs t = [] \<Longrightarrow> handshakes t = []"
  by (induction t rule: sentConfigs.induct) simp_all

lemma resolveEphemeral_log:
  "resolveEphemeral env t src name eph = (r, t') \<Longrightarrow>
   t' = t \<or> t' = t @ [CallContainerInfo src name]"
  by (auto simp: resolveEphemeral_def split: if_splits sum.splits)

lemma negotiate_Inr:
  assumes "negotiate env t p dR eph stateful cOnly = Inr (x, addrs, t')"
  shows "\<exists>dst profs t3 ws op.
      NewClient env t (destRemote p) = Inr dst \<and>
      ListProfiles env (t @ [CallNewClient (destRemote p)]) dst = Inr profs \<and>
      set (Profiles (state p)) \<subseteq> set profs \<and>
      resolveEphemeral env (t @ [CallNewClient (destRemote p), CallListProfiles dst])
        (source p) (sourceName p) eph = (Inr (ephemeral x), t3) \<and>
      GetMigrationSourceWS env t3 (source p) (sourceName p) stateful cOnly = Inr ws \<and>
      MetadataAsOperation ws = Inr op \<and>
      secretsOf (Metadata op) = Inr (secrets x) \<and>
      Addresses env (t3 @ [CallGetMigrationSourceWS (source p) (sourceName p) stateful cOnly])
        (source p) = Inr addrs \<and>
      t' = t3 @ [CallGetMigrationSourceWS (source p) (sourceName p) stateful cOnly,
                 CallAddresses (source p)] \<and>
      sourceWSResponse x = ws \<and> dest x = dst \<and> destResource x = dR \<and> contOnly x = cOnly \<and>
      source x = source p \<and> state x = state p \<and> baseImage x = baseImage p \<and>
      destName x = destName p \<and> sourceName x = sourceName p"
  using assms
  by (auto simp: negotiate_def Let_def split: sum.splits prod.splits if_splits)

lemma fetchStatus_log:
  "fetchStatus env t src name = (r, t') \<Longrightarrow>
   t' = t @ [CallContainerInfo src name] \<or> t' = t @ [CallSnapshotInfo src name]"
  by (auto simp: fetchStatus_def split: if_splits sum.splits)

lemma resolve_Inr:
  assumes "resolve env c sR dR kv = Inr (p, t)"
  shows "\<exists>st0 merged.
      sourceRemote p = fst (ParseRemoteAndContainer env sR) \<and>
      sourceName p = snd (ParseRemoteAndContainer env sR) \<and>
      sourceName p \<noteq> [] \<and>
      destRemote p = fst (ParseRemoteAndContainer env dR) \<and>
      destName p = (if snd (ParseRemoteAndContainer env dR) = [] \<and> dR \<noteq> []
                    then snd (ParseRemoteAndContainer env sR)
                    else snd (ParseRemoteAndContainer env dR)) \<and>
      NewClient env [] (sourceRemote p) = Inr (source p) \<and>
      fetchStatus env [CallNewClient (sourceRemote p)] (source p) (sourceName p) = (Inr st0, t) \<and>
      mergeConfig (configMap env) (Config st0) = Inr merged \<and>
      baseImage p = lookupString merged ''volatile.base_image'' \<and>
      Config (state p) = (if \<not> kv then dropVolatile merged else merged) \<and>
      Profiles (state p) = appendProfiles (profArgs c) (Profiles st0) \<and>
      Architecture (state p) = Architecture st0 \<and>
      Devices (state p) = Devices st0"
  using assms
  by (auto simp: resolve_def mergeState_def Let_def split: sum.splits prod.splits if_splits)

lemma resolve_Inr_log:
  assumes "resolve env c sR dR kv = Inr (p, t)"
  shows "t = [CallNewClient (sourceRemote p), CallContainerInfo (source p) (sourceName p)] \<or>
         t = [CallNewClient (sourceRemote p), CallSnapshotInfo (source p) (sourceName p)]"
  using resolve_Inr [OF assms] fetchStatus_log by fastforce

lemma resolve_Inl_log:
  assumes "resolve env c sR dR kv = Inl r"
  shows "sentConfigs (calls r) = [] \<and> filter isListProfiles (calls r) = []
         \<and> filter isGetMigrationSourceWS (calls r) = []"
  using assms
  by (auto simp: resolve_def mergeState_def Let_def calls_def
      split: sum.splits prod.splits if_splits dest!: fetchStatus_log)

lemma noVolatile_dropVolatile: "noVolatile (dropVolatile cfg)"
  by (cases cfg) (simp_all add: noVolatile_def dropVolatile_def fmpred_iff)

lemma localCopy_log:
  "\<exists>mid. calls (localCopy env t p dR eph cOnly) = t @ mid \<and>
     set (sentConfigs mid) \<subseteq> {Config (state p)} \<and> handshakes mid = [] \<and>
     filter isListProfiles mid = [] \<and> filter isGetMigrationSourceWS mid = []"
  by (auto simp: localCopy_def calls_def Let_def split: sum.splits option.splits prod.splits)

lemma attempts_log:
  "\<exists>mid k. calls (attempts env x addrs m t) = t @ mid \<and> k \<le> length addrs \<and>
     handshakes mid = map (migrateArgsFor x) (take k addrs) \<and>
     sentConfigs mid = replicate k (Config (state x)) \<and>
     filter isListProfiles mid = [] \<and> filter isGetMigrationSourceWS mid = []"
proof (induction addrs arbitrary: m t)
  case Nil
  show ?case
    by (auto simp: afterLoop_def calls_def Let_def split: sum.splits)
next
  case (Cons a addrs)
  let ?H = "CallMigrateFrom (dest x) (migrateArgsFor x a)"
  show ?case
  proof (cases "MigrateFrom env t (dest x) (migrateArgsFor x a)")
    case (Inl e)
    from Cons.IH [of "Some e" "t @ [?H]"] obtain mid k where
      mk: "calls (attempts env x addrs (Some e) (t @ [?H])) = (t @ [?H]) @ mid"
        "k \<le> length addrs" "handshakes mid = map (migrateArgsFor x) (take k addrs)"
        "sentConfigs mid = replicate k (Config (state x))"
        "filter isListProfiles mid = []" "filter isGetMigrationSourceWS mid = []"
      by blast
    have "calls (attempts env x (a # addrs) m t) = t @ (?H # mid)"
      using Inl mk(1) by simp
    moreover have "Suc k \<le> length (a # addrs)" using mk(2) by simp
    moreover have "handshakes (?H # mid) = map (migrateArgsFor x) (take (Suc k) (a # addrs))"
      using mk(3) by simp
    moreover have "sentConfigs (?H # mid) = replicate (Suc k) (Config (state x))"
      using mk(4) by (simp add: migrateArgsFor_def)
    moreover have "filter isListProfiles (?H # mid) = []"
      "filter isGetMigrationSourceWS (?H # mid) = []"
      using mk(5,6) by simp_all
    ultimately show ?thesis by blast
  next
    case (Inr migration)
    let ?mid = "[?H, CallWaitForSuccess (dest x) (Operation migration),
                 CallWaitForSuccess (source x) (Operation (sourceWSResponse x))]"
    have "calls (attempts env x (a # addrs) m t) = t @ ?mid"
      using attempts_accepted [OF Inr, of addrs m]
      by (simp add: calls_def split: option.splits)
    moreover have "Suc 0 \<le> length (a # addrs)" by simp
    moreover have "handshakes ?mid = map (migrateArgsFor x) (take (Suc 0) (a # addrs))"
      by simp
    moreover have "sentConfigs ?mid = replicate (Suc 0) (Config (state x))"
      by (simp add: migrateArgsFor_def)
    moreover have "filter isListProfiles ?mid = []" "filter isGetMigrationSourceWS ?mid = []"
      by simp_all
    ultimately show ?thesis by blast
  qed
qed

lemma negotiate_Inl_log:
  assumes "negotiate env t p dR eph stateful cOnly = Inl r"
  shows "\<exists>mid. calls r = t @ mid \<and> sentConfigs mid = [] \<and>
           length (filter isListProfiles mid) \<le> 1"
  using assms
  by (auto simp: negotiate_def Let_def calls_def
      split: sum.splits prod.splits if_splits dest!: resolveEphemeral_log)

lemma negotiate_Inr_log:
  assumes "negotiate env t p dR eph stateful cOnly = Inr (x, addrs, t')"
  shows "\<exists>mid. t' = t @ mid \<and> sentConfigs mid = [] \<and>
           length (filter isListProfiles mid) = 1"
  using assms
  by (auto simp: negotiate_def Let_def
      split: sum.splits prod.splits if_splits dest!: resolveEphemeral_log)

lemma fmpred_fmupd_iff: "fmpred P (fmupd k v m) \<longleftrightarrow> P k v \<and> fmpred P (fmdrop k m)"
  by (auto simp: fmpred_iff split: if_splits)

subsection \<open>The report of the created container\<close>

lemma reportName_pinned: "dR \<noteq> [] \<Longrightarrow> reportName dR resp = (Return None, [])"
  by (simp add: reportName_def)

lemma reportName_found:
  assumes "MetadataAsOperation resp = Inr op"
    and "fmlookup (Resources op) ''containers'' = Some (first # others)"
  shows "reportName [] resp =
     (Return None, [''Container name is: '' @ last (Split first CHR ''/'') @ [CHR 0x0A]])"
  using assms Split_not_Nil [of first "CHR ''/''"]
  by (simp add: reportName_def Let_def last_conv_nth)

lemma reportName_missing:
  assumes "(\<exists>e. MetadataAsOperation resp = Inl e) \<or>
     (\<exists>op. MetadataAsOperation resp = Inr op \<and>
        (fmlookup (Resources op) ''containers'' = None \<or>
         fmlookup (Resources op) ''containers'' = Some []))"
  shows "reportName [] resp = (Return (Some ErrNoResource), [])"
  using assms by (auto simp: reportName_def)

lemma reportName_success_iff:
  "fst (reportName dR resp) = Return None \<longleftrightarrow>
     dR \<noteq> [] \<or> (\<exists>op first others. MetadataAsOperation resp = Inr op \<and>
        fmlookup (Resources op) ''containers'' = Some (first # others))"
proof (cases "dR = []")
  case False
  then show ?thesis by (simp add: reportName_pinned)
next
  case True
  show ?thesis
  proof (cases "MetadataAsOperation resp")
    case (Inl e)
    with True reportName_missing [of resp] show ?thesis by auto
  next
    case (Inr op)
    show ?thesis
    proof (cases "fmlookup (Resources op) ''containers''")
      case None
      with True Inr reportName_missing [of resp] show ?thesis by auto
    next
      case (Some cs)
      show ?thesis
      proof (cases cs)
        case Nil
        with True Inr Some reportName_missing [of resp] show ?thesis by auto
      next
        case (Cons first others)
        with True Inr Some reportName_found [of resp op first others] show ?thesis by auto
      qed
    qed
  qed
qed

lemma reportName_failure:
  assumes "fst (reportName dR resp) \<noteq> Return None"
  shows "reportName dR resp = (Return (Some ErrNoResource), [])"
proof -
  have e: "dR = []"
  proof (rule ccontr)
    assume "dR \<noteq> []"
    then have "reportName dR resp = (Return None, [])" by (rule reportName_pinned)
    with assms show False by simp
  qed
  show ?thesis
  proof (cases "MetadataAsOperation resp")
    case (Inl err)
    with e reportName_missing [of resp] show ?thesis by auto
  next
    case (Inr op)
    show ?thesis
    proof (cases "fmlookup (Resources op) ''containers''")
      case None
      with e Inr reportName_missing [of resp] show ?thesis by auto
    next
      case (Some cs)
      show ?thesis
      proof (cases cs)
        case Nil
        with e Inr Some reportName_missing [of resp] show ?thesis by auto
      next
        case (Cons first others)
        with e Inr Some reportName_found [of resp op first others] assms show ?thesis
          by simp
      qed
    qed
  qed
qed

subsection \<open>The four ways through copyContainer\<close>

lemma copyContainer_cases:
  "(\<exists>r. resolve env c sR dR kv = Inl r \<and> copyContainer env c sR dR kv eph stateful cOnly = r) \<or>
   (\<exists>p t. resolve env c sR dR kv = Inr (p, t) \<and> sourceRemote p = destRemote p \<and>
      copyContainer env c sR dR kv eph stateful cOnly = localCopy env t p dR eph cOnly) \<or>
   (\<exists>p t r. resolve env c sR dR kv = Inr (p, t) \<and> sourceRemote p \<noteq> destRemote p \<and>
      negotiate env t p dR eph stateful cOnly = Inl r \<and>
      copyContainer env c sR dR kv eph stateful cOnly = r) \<or>
   (\<exists>p t x addrs t'. resolve env c sR dR kv = Inr (p, t) \<and> sourceRemote p \<noteq> destRemote p \<and>
      negotiate env t p dR eph stateful cOnly = Inr (x, addrs, t') \<and>
      copyContainer env c sR dR kv eph stateful cOnly = attempts env x addrs None t')"
  by (auto simp: copyContainer_def migrate_def split: sum.splits prod.splits)

lemma resolve_Inr_quiet:
  assumes "resolve env c sR dR kv = Inr (p, t)"
  shows "sentConfigs t = [] \<and> filter isListProfiles t = []
     \<and> filter isGetMigrationSourceWS t = []"
  using resolve_Inr_log [OF assms] by auto

text \<open>Every configuration map that leaves the function is the merged one of the
  locals, and every handshake is built from the locals.\<close>

lemma copyContainer_sent:
  "sentConfigs (calls (copyContainer env c sR dR kv eph stateful cOnly)) = [] \<or>
   (\<exists>p t. resolve env c sR dR kv = Inr (p, t) \<and>
      set (sentConfigs (calls (copyContainer env c sR dR kv eph stateful cOnly)))
        \<subseteq> {Config (state p)} \<and>
      (\<forall>a\<in>set (handshakes (calls (copyContainer env c sR dR kv eph stateful cOnly))).
         mf_baseImage a = baseImage p))"
  using copyContainer_cases [of env c sR dR kv eph stateful cOnly]
proof (elim disjE exE conjE)
  fix r assume "resolve env c sR dR kv = Inl r"
    and "copyContainer env c sR dR kv eph stateful cOnly = r"
  then show ?thesis using resolve_Inl_log by simp
next
  fix p t
  assume r: "resolve env c sR dR kv = Inr (p, t)"
    and e: "copyContainer env c sR dR kv eph stateful cOnly = localCopy env t p dR eph cOnly"
  from localCopy_log [of env t p dR eph cOnly] obtain mid where
    "calls (localCopy env t p dR eph cOnly) = t @ mid"
    "set (sentConfigs mid) \<subseteq> {Config (state p)}" "handshakes mid = []"
    by blast
  with r e resolve_Inr_quiet [OF r] show ?thesis
    by (simp add: sentConfigs_append handshakes_append sentConfigs_no_handshakes)
next
  fix p t r
  assume r: "resolve env c sR dR kv = Inr (p, t)"
    and n: "negotiate env t p dR eph stateful cOnly = Inl r"
    and e: "copyContainer env c sR dR kv eph stateful cOnly = r"
  from negotiate_Inl_log [OF n] resolve_Inr_quiet [OF r] e show ?thesis
    by (auto simp: sentConfigs_append)
next
  fix p t x addrs t'
  assume r: "resolve env c sR dR kv = Inr (p, t)"
    and n: "negotiate env t p dR eph stateful cOnly = Inr (x, addrs, t')"
    and e: "copyContainer env c sR dR kv eph stateful cOnly = attempts env x addrs None t'"
  from negotiate_Inr_log [OF n] resolve_Inr_quiet [OF r] have q: "sentConfigs t' = []"
    by (auto simp: sentConfigs_append)
  from negotiate_Inr [OF n] have x: "state x = state p" "baseImage x = baseImage p"
    by auto
  from attempts_log [of env x addrs None t'] obtain mid k where
    "calls (attempts env x addrs None t') = t' @ mid"
    "handshakes mid = map (migrateArgsFor x) (take k addrs)"
    "sentConfigs mid = replicate k (Config (state x))"
    by blast
  with r e q x show ?thesis
    by (auto simp: sentConfigs_append handshakes_append sentConfigs_no_handshakes
        migrateArgsFor_def)
qed

lemma copyContainer_handshakes:
  "handshakes (calls (copyContainer env c sR dR kv eph stateful cOnly)) = [] \<or>
   (\<exists>p t x addrs t' k. resolve env c sR dR kv = Inr (p, t) \<and>
      sourceRemote p \<noteq> destRemote p \<and>
      negotiate env t p dR eph stateful cOnly = Inr (x, addrs, t') \<and>
      handshakes (calls (copyContainer env c sR dR kv eph stateful cOnly))
        = map (migrateArgsFor x) (take k addrs))"
  using copyContainer_cases [of env c sR dR kv eph stateful cOnly]
proof (elim disjE exE conjE)
  fix r assume "resolve env c sR dR kv = Inl r"
    and "copyContainer env c sR dR kv eph stateful cOnly = r"
  then show ?thesis using resolve_Inl_log sentConfigs_no_handshakes by simp
next
  fix p t
  assume r: "resolve env c sR dR kv = Inr (p, t)"
    and e: "copyContainer env c sR dR kv eph stateful cOnly = localCopy env t p dR eph cOnly"
  from localCopy_log [of env t p dR eph cOnly] obtain mid where
    "calls (localCopy env t p dR eph cOnly) = t @ mid" "handshakes mid = []"
    by blast
  with r e resolve_Inr_quiet [OF r] show ?thesis
    by (simp add: handshakes_append sentConfigs_no_handshakes)
next
  fix p t r
  assume r: "resolve env c sR dR kv = Inr (p, t)"
    and n: "negotiate env t p dR eph stateful cOnly = Inl r"
    and e: "copyContainer env c sR dR kv eph stateful cOnly = r"
  from negotiate_Inl_log [OF n] resolve_Inr_quiet [OF r] e show ?thesis
    by (auto simp: handshakes_append sentConfigs_no_handshakes)
next
  fix p t x addrs t'
  assume r: "resolve env c sR dR kv = Inr (p, t)"
    and d: "sourceRemote p \<noteq> destRemote p"
    and n: "negotiate env t p dR eph stateful cOnly = Inr (x, addrs, t')"
    and e: "copyContainer env c sR dR kv eph stateful cOnly = attempts env x addrs None t'"
  from negotiate_Inr_log [OF n] resolve_Inr_quiet [OF r] have q: "handshakes t' = []"
    by (auto simp: handshakes_append sentConfigs_no_handshakes)
  from attempts_log [of env x addrs None t'] obtain mid k where
    "calls (attempts env x addrs None t') = t' @ mid"
    "handshakes mid = map (migrateArgsFor x) (take k addrs)"
    by blast
  with e q have "handshakes (calls (copyContainer env c sR dR kv eph stateful cOnly))
        = map (migrateArgsFor x) (take k addrs)"
    by (simp add: handshakes_append)
  with r d n show ?thesis by blast
qed

lemma copyContainer_ephem:
  assumes "a \<in> set (handshakes (calls (copyContainer env c sR dR kv eph stateful cOnly)))"
  shows "(eph \<noteq> -1 \<longrightarrow> mf_ephem a = (eph = 1)) \<and>
      (eph = -1 \<longrightarrow>
         (\<exists>p t dst ct. resolve env c sR dR kv = Inr (p, t) \<and>
            NewClient env t (destRemote p) = Inr dst \<and>
            ContainerInfo env (t @ [CallNewClient (destRemote p), CallListProfiles dst])
              (source p) (sourceName p) = Inr ct \<and>
            mf_ephem a = Ephemeral ct))"
proof -
  from assms copyContainer_handshakes [of env c sR dR kv eph stateful cOnly]
  obtain p t x addrs t' k where r: "resolve env c sR dR kv = Inr (p, t)"
    and n: "negotiate env t p dR eph stateful cOnly = Inr (x, addrs, t')"
    and h: "handshakes (calls (copyContainer env c sR dR kv eph stateful cOnly))
        = map (migrateArgsFor x) (take k addrs)"
    by fastforce
  from assms h have a: "mf_ephem a = (ephemeral x = 1)"
    by (auto simp: migrateArgsFor_def)
  from negotiate_Inr [OF n] obtain dst t3 where
    d: "NewClient env t (destRemote p) = Inr dst"
    and e: "resolveEphemeral env (t @ [CallNewClient (destRemote p), CallListProfiles dst])
        (source p) (sourceName p) eph = (Inr (ephemeral x), t3)"
    by blast
  show ?thesis
  proof (cases "eph = -1")
    case False
    with e a show ?thesis by (simp add: resolveEphemeral_def)
  next
    case True
    with e obtain ct where
      "ContainerInfo env (t @ [CallNewClient (destRemote p), CallListProfiles dst])
              (source p) (sourceName p) = Inr ct"
      "ephemeral x = (if Ephemeral ct then 1 else 0)"
      by (auto simp: resolveEphemeral_def split: sum.splits)
    with a r d True show ?thesis by auto
  qed
qed

lemma run_eq:
  "args \<noteq> [] \<Longrightarrow>
   run env c args =
     copyContainer env c (args ! 0) (if length args < 2 then [] else args ! 1) False
       (if ephem c then 1 else 0) False (containerOnly c)"
  by (cases args) (simp_all add: run_def Let_def)

lemma copyContainer_listProfiles:
  "length (filter isListProfiles (calls (copyContainer env c sR dR kv eph stateful cOnly))) \<le> 1
   \<and> (fst (ParseRemoteAndContainer env sR) = fst (ParseRemoteAndContainer env dR) \<longrightarrow>
        filter isListProfiles (calls (copyContainer env c sR dR kv eph stateful cOnly)) = [])
   \<and> (handshakes (calls (copyContainer env c sR dR kv eph stateful cOnly)) \<noteq> [] \<longrightarrow>
        length (filter isListProfiles
          (calls (copyContainer env c sR dR kv eph stateful cOnly))) = 1)"
  using copyContainer_cases [of env c sR dR kv eph stateful cOnly]
proof (elim disjE exE conjE)
  fix r assume "resolve env c sR dR kv = Inl r"
    and "copyContainer env c sR dR kv eph stateful cOnly = r"
  then show ?thesis using resolve_Inl_log sentConfigs_no_handshakes by simp
next
  fix p t
  assume r: "resolve env c sR dR kv = Inr (p, t)"
    and e: "copyContainer env c sR dR kv eph stateful cOnly = localCopy env t p dR eph cOnly"
  from localCopy_log [of env t p dR eph cOnly] obtain mid where
    "calls (localCopy env t p dR eph cOnly) = t @ mid" "filter isListProfiles mid = []"
    "handshakes mid = []"
    by blast
  with r e resolve_Inr_quiet [OF r] show ?thesis
    by (simp add: handshakes_append sentConfigs_no_handshakes)
next
  fix p t r
  assume r: "resolve env c sR dR kv = Inr (p, t)"
    and d: "sourceRemote p \<noteq> destRemote p"
    and n: "negotiate env t p dR eph stateful cOnly = Inl r"
    and e: "copyContainer env c sR dR kv eph stateful cOnly = r"
  from resolve_Inr [OF r] d
  have "fst (ParseRemoteAndContainer env sR) \<noteq> fst (ParseRemoteAndContainer env dR)"
    by auto
  with negotiate_Inl_log [OF n] resolve_Inr_quiet [OF r] e show ?thesis
    by (auto simp: handshakes_append sentConfigs_no_handshakes)
next
  fix p t x addrs t'
  assume r: "resolve env c sR dR kv = Inr (p, t)"
    and d: "sourceRemote p \<noteq> destRemote p"
    and n: "negotiate env t p dR eph stateful cOnly = Inr (x, addrs, t')"
    and e: "copyContainer env c sR dR kv eph stateful cOnly = attempts env x addrs None t'"
  from resolve_Inr [OF r] d
  have ne: "fst (ParseRemoteAndContainer env sR) \<noteq> fst (ParseRemoteAndContainer env dR)"
    by auto
  from negotiate_Inr_log [OF n] resolve_Inr_quiet [OF r]
  have q: "length (filter isListProfiles t') = 1" by auto
  from attempts_log [of env x addrs None t'] obtain mid where
    "calls (attempts env x addrs None t') = t' @ mid" "filter isListProfiles mid = []"
    by blast
  with e q ne show ?thesis by simp
qed

subsection \<open>The order of arrival on the channel\<close>

text \<open>The scheduler has no part in the result: whichever waiter sends first, the function
  ends the same way, with the same log and output.\<close>

lemma attempts_arrival_order:
  "attempts (env\<lparr>sourceFirst := f\<rparr>) x addrs m t = attempts env x addrs m t"
proof (induction addrs arbitrary: m t)
  case Nil
  show ?case by (simp add: afterLoop_def)
next
  case (Cons a addrs)
  show ?case
  proof (cases "MigrateFrom env t (dest x) (migrateArgsFor x a)")
    case (Inl e)
    then show ?thesis using Cons.IH by simp
  next
    case (Inr migration)
    then have "MigrateFrom (env\<lparr>sourceFirst := f\<rparr>) t (dest x) (migrateArgsFor x a)
        = Inr migration"
      by simp
    from attempts_accepted [OF this, of addrs m] attempts_accepted [OF Inr, of addrs m]
    show ?thesis by simp
  qed
qed

lemma copyContainer_arrival_order:
  "copyContainer (env\<lparr>sourceFirst := f\<rparr>) c sR dR kv eph stateful cOnly
     = copyContainer env c sR dR kv eph stateful cOnly"
proof -
  have r: "resolve (env\<lparr>sourceFirst := f\<rparr>) c sR dR kv = resolve env c sR dR kv"
    by (simp add: resolve_def fetchStatus_def Let_def
        cong: prod.case_cong sum.case_cong if_cong)
  have l: "localCopy (env\<lparr>sourceFirst := f\<rparr>) t p dR eph cOnly
      = localCopy env t p dR eph cOnly" for t p
    by (simp add: localCopy_def Let_def cong: prod.case_cong sum.case_cong option.case_cong if_cong)
  have n: "negotiate (env\<lparr>sourceFirst := f\<rparr>) t p dR eph stateful cOnly
      = negotiate env t p dR eph stateful cOnly" for t p
    by (simp add: negotiate_def resolveEphemeral_def Let_def
        cong: prod.case_cong sum.case_cong if_cong)
  show ?thesis
    by (simp add: copyContainer_def migrate_def r l n attempts_arrival_order
        cong: prod.case_cong sum.case_cong if_cong)
qed

section \<open>The sample deployment, evaluated\<close>

lemmas model_defs =
  copyContainer_def resolve_def fetchStatus_def mergeState_def appendProfiles_def
  mergeConfig_def lookupString_def dropVolatile_def HasPrefix_def localCopy_def migrate_def
  negotiate_def resolveEphemeral_def secretsOf_eq migrateArgsFor_def afterLoop_def wait_def
  reportName_def

lemmas sample_defs =
  sampleEnv_def parseLocator_def nameIsSnapshot_def sampleCmd_def sampleContainer_def
  sampleCopy_def sampleSession_def sampleMigration_def sampleSource_def sampleDest_def
  sampleState_def samplePrepared_def sampleLocals_def sampleLog0_def sampleLog_def
  sampleArgs_def

lemmas fmap_eval = fmpred_fmupd_iff fmdrop_fmupd fmmap_fmupd

lemma sample_resolve:
  "resolve sampleEnv sampleCmd ''c1'' ''remote:c2'' False = Inr (samplePrepared, sampleLog0)"
  by (simp add: model_defs sample_defs fmap_eval)

lemma sample_negotiate:
  "negotiate sampleEnv sampleLog0 samplePrepared ''remote:c2'' 0 False False
     = Inr (sampleLocals, [''10.0.0.1:8443'', ''10.0.0.2:8443''], sampleLog)"
  by (simp add: model_defs sample_defs fmap_eval)

lemma sample_args: "migrateArgsFor sampleLocals addr = sampleArgs addr False"
  by (simp add: model_defs sample_defs)

lemma sample_sent:
  "sentConfigs (calls (copyContainer sampleEnv sampleCmd ''c1'' ''remote:c2'' False 0 False False))
     = [Some (fmap_of_list [(''limits.cpu'', ''2'')]), Some (fmap_of_list [(''limits.cpu'', ''2'')])]"
  by (simp add: model_defs sample_defs fmap_eval calls_def)

section \<open>The claims\<close>

text \<open>
  C1. After an accepted handshake the function receives both messages before it
  decides, and the decision is the same in either order of arrival
  (\<open>attempts_accepted\<close>, \<open>copyContainer_arrival_order\<close>): an error of the source's wait
  is returned at once. An error
  of the destination's wait should send the loop on to the next address, but the
  receiving loop stores the zero value in \<^verbatim>\<open>destOpErr\<close>, so the error is lost: in the
  sample deployment with a destination whose operation fails, the function returns nil
  after the first address and never tries the second.
\<close>

theorem dest_wait_failure_taken_as_success:
  "WaitForSuccess destWaitFailsEnv
     (sampleLog @ [CallMigrateFrom sampleDest (sampleArgs ''10.0.0.1:8443'' False)])
     sampleDest ''/1.0/operations/recv'' = Some ''target storage failure'' \<and>
   copyContainer destWaitFailsEnv sampleCmd ''c1'' ''remote:c2'' False 0 False False =
     (Return None,
      sampleLog @
      [CallMigrateFrom sampleDest (sampleArgs ''10.0.0.1:8443'' False),
       CallWaitForSuccess sampleDest ''/1.0/operations/recv'',
       CallWaitForSuccess sampleSource ''/1.0/operations/mig''],
      [])"
  by (simp add: destWaitFailsEnv_def model_defs sample_defs fmap_eval)

text \<open>
  C2. When the addresses run out the function asks the source for the status of its
  operation and reports with its error text, or else with the error of the last
  handshake (\<open>attempts_all_rejected\<close>). An address whose handshake is accepted and whose
  destination operation fails should count as failed too, but the error is lost as in
  C1: with one such address, and a source operation whose status carries an error
  text, the function returns nil and its log ends with the wait on the source, so the
  status is never asked for.
\<close>

theorem exhausted_by_dest_wait_returns_nil:
  "GetOperation oneAddressEnv [] sampleSource ''/1.0/operations/mig''
     = Inr \<lparr>Resources = fmempty, Metadata = fmempty, Err = ''transfer aborted''\<rparr> \<and>
   WaitForSuccess oneAddressEnv
     (sampleLog @ [CallMigrateFrom sampleDest (sampleArgs ''10.0.0.1:8443'' False)])
     sampleDest ''/1.0/operations/recv'' = Some ''target storage failure'' \<and>
   WaitForSuccess oneAddressEnv
     (sampleLog @ [CallMigrateFrom sampleDest (sampleArgs ''10.0.0.1:8443'' False)])
     sampleSource ''/1.0/operations/mig'' = None \<and>
   copyContainer oneAddressEnv sampleCmd ''c1'' ''remote:c2'' False (-1) False True =
     (Return None,
      sampleLog0 @
      [CallNewClient ''remote'', CallListProfiles sampleDest,
       CallContainerInfo sampleSource ''c1'',
       CallGetMigrationSourceWS sampleSource ''c1'' False True,
       CallAddresses sampleSource,
       CallMigrateFrom sampleDest
         ((sampleArgs ''10.0.0.1:8443'' True)\<lparr>mf_containerOnly := True\<rparr>),
       CallWaitForSuccess sampleDest ''/1.0/operations/recv'',
       CallWaitForSuccess sampleSource ''/1.0/operations/mig''],
      [])"
  by (simp add: oneAddressEnv_def destWaitFailsEnv_def model_defs sample_defs fmap_eval)

text \<open>
  C3 (as stated) fails: with no destination resource and a response to the accepted
  handshake that lists no created container, the first address is rejected, the second
  is accepted, both waits succeed, and the function returns the missing-resource
  error.
\<close>

theorem accepted_address_without_resource:
  "MigrateFrom noResourceEnv
     [CallNewClient ''remote'', CallContainerInfo sampleDest ''c1'',
      CallNewClient ''local'', CallListProfiles sampleSource,
      CallGetMigrationSourceWS sampleDest ''c1'' False False, CallAddresses sampleDest]
     sampleSource
     ((sampleArgs ''10.0.0.1:8443'' False)\<lparr>mf_name := [], mf_sourceClient := sampleDest\<rparr>)
     = Inl ''bad handshake'' \<and>
   MigrateFrom noResourceEnv
     [CallNewClient ''remote'', CallContainerInfo sampleDest ''c1'',
      CallNewClient ''local'', CallListProfiles sampleSource,
      CallGetMigrationSourceWS sampleDest ''c1'' False False, CallAddresses sampleDest,
      CallMigrateFrom sampleSource
        ((sampleArgs ''10.0.0.1:8443'' False)\<lparr>mf_name := [], mf_sourceClient := sampleDest\<rparr>)]
     sampleSource
     ((sampleArgs ''10.0.0.2:8443'' False)\<lparr>mf_name := [], mf_sourceClient := sampleDest\<rparr>)
     = Inr sampleSession \<and>
   fmlookup (Resources (projr (MetadataAsOperation sampleSession))) ''containers'' = None \<and>
   copyContainer noResourceEnv sampleCmd ''remote:c1'' [] False 0 False False =
     (Return (Some ErrNoResource),
      [CallNewClient ''remote'', CallContainerInfo sampleDest ''c1'',
       CallNewClient ''local'', CallListProfiles sampleSource,
       CallGetMigrationSourceWS sampleDest ''c1'' False False, CallAddresses sampleDest,
       CallMigrateFrom sampleSource
         ((sampleArgs ''10.0.0.1:8443'' False)\<lparr>mf_name := [], mf_sourceClient := sampleDest\<rparr>),
       CallMigrateFrom sampleSource
         ((sampleArgs ''10.0.0.2:8443'' False)\<lparr>mf_name := [], mf_sourceClient := sampleDest\<rparr>),
       CallWaitForSuccess sampleSource ''/1.0/operations/mig'',
       CallWaitForSuccess sampleDest ''/1.0/operations/mig''],
      [])"
  by (simp add: noResourceEnv_def model_defs sample_defs fmap_eval)

text \<open>
  C3 (as amended). When the handshake is rejected for each of the addresses before one
  and that one is accepted, with both waits succeeding, the function ends with that
  attempt: the handshakes made are one per address up to and including that one, in
  the order of the list that the address discovery returned, and no later address is
  tried. It returns nil when a destination resource was given or the response to the
  accepted handshake lists a created container, and the missing-resource error
  otherwise.
\<close>

theorem first_accepted_address_wins:
  assumes prep: "resolve env c sR dR kv = Inr (p, t0)"
    and cross: "sourceRemote p \<noteq> destRemote p"
    and session: "negotiate env t0 p dR eph stateful cOnly = Inr (x, pre @ addr # rest, t)"
    and rejected: "\<forall>i<length pre. \<exists>e.
       MigrateFrom env
         (t @ map (\<lambda>a. CallMigrateFrom (dest x) (migrateArgsFor x a)) (take i pre))
         (dest x) (migrateArgsFor x (pre ! i)) = Inl e"
    and accepted: "MigrateFrom env
         (t @ map (\<lambda>a. CallMigrateFrom (dest x) (migrateArgsFor x a)) pre)
         (dest x) (migrateArgsFor x addr) = Inr migration"
    and destOk: "WaitForSuccess env
         (t @ map (\<lambda>a. CallMigrateFrom (dest x) (migrateArgsFor x a)) (pre @ [addr]))
         (dest x) (Operation migration) = None"
    and sourceOk: "WaitForSuccess env
         (t @ map (\<lambda>a. CallMigrateFrom (dest x) (migrateArgsFor x a)) (pre @ [addr]))
         (source x) (Operation (sourceWSResponse x)) = None"
  shows "copyContainer env c sR dR kv eph stateful cOnly =
           (fst (reportName dR migration),
            t @ map (\<lambda>a. CallMigrateFrom (dest x) (migrateArgsFor x a)) (pre @ [addr])
              @ [CallWaitForSuccess (dest x) (Operation migration),
                 CallWaitForSuccess (source x) (Operation (sourceWSResponse x))],
            snd (reportName dR migration))
         \<and> handshakes (calls (copyContainer env c sR dR kv eph stateful cOnly))
             = map (migrateArgsFor x) (pre @ [addr])
         \<and> Addresses env (butlast t) (source x) = Inr (pre @ addr # rest)
         \<and> (ended (copyContainer env c sR dR kv eph stateful cOnly) = Return None \<longleftrightarrow>
              dR \<noteq> [] \<or> (\<exists>op first others. MetadataAsOperation migration = Inr op \<and>
                 fmlookup (Resources op) ''containers'' = Some (first # others)))
         \<and> (ended (copyContainer env c sR dR kv eph stateful cOnly) \<noteq> Return None \<longrightarrow>
              ended (copyContainer env c sR dR kv eph stateful cOnly)
                = Return (Some ErrNoResource))"
proof -
  let ?H = "\<lambda>a. CallMigrateFrom (dest x) (migrateArgsFor x a)"
  let ?log = "t @ map ?H (pre @ [addr])
              @ [CallWaitForSuccess (dest x) (Operation migration),
                 CallWaitForSuccess (source x) (Operation (sourceWSResponse x))]"
  from negotiate_Inr [OF session] obtain t3 where
    x: "destResource x = dR" "source x = source p"
    and t: "t = t3 @ [CallGetMigrationSourceWS (source p) (sourceName p) stateful cOnly,
                      CallAddresses (source p)]"
    and addrs: "Addresses env
        (t3 @ [CallGetMigrationSourceWS (source p) (sourceName p) stateful cOnly])
        (source p) = Inr (pre @ addr # rest)"
    by blast
  have whole: "copyContainer env c sR dR kv eph stateful cOnly
      = attempts env x (pre @ addr # rest) None t"
    using prep cross session by (simp add: copyContainer_def migrate_def)
  from attempts_rejects [OF rejected, of "addr # rest" None] obtain m' where
    "attempts env x (pre @ addr # rest) None t
       = attempts env x (addr # rest) m' (t @ map ?H pre)"
    by blast
  also have "\<dots> = (fst (reportName dR migration), ?log, snd (reportName dR migration))"
    using attempts_accepted [OF accepted, of rest m'] sourceOk x(1) by simp
  finally have run: "copyContainer env c sR dR kv eph stateful cOnly
      = (fst (reportName dR migration), ?log, snd (reportName dR migration))"
    using whole by simp
  have quiet0: "handshakes t0 = []"
    using resolve_Inr_log [OF prep] by auto
  from negotiate_Inr_log [OF session] obtain mid where
    "t = t0 @ mid" "sentConfigs mid = []" by blast
  with quiet0 have quiet: "handshakes t = []"
    by (simp add: handshakes_append sentConfigs_no_handshakes)
  have hs: "handshakes (calls (copyContainer env c sR dR kv eph stateful cOnly))
             = map (migrateArgsFor x) (pre @ [addr])"
    unfolding run calls_def using quiet
    by (simp add: handshakes_append handshakes_map del: map_append)
  have ad: "Addresses env (butlast t) (source x) = Inr (pre @ addr # rest)"
    using addrs t x(2) by (simp add: butlast_append)
  have en: "ended (copyContainer env c sR dR kv eph stateful cOnly) = Return None \<longleftrightarrow>
              dR \<noteq> [] \<or> (\<exists>op first others. MetadataAsOperation migration = Inr op \<and>
                 fmlookup (Resources op) ''containers'' = Some (first # others))"
    unfolding run ended_def using reportName_success_iff [of dR migration] by simp
  have er: "ended (copyContainer env c sR dR kv eph stateful cOnly) \<noteq> Return None \<longrightarrow>
              ended (copyContainer env c sR dR kv eph stateful cOnly)
                = Return (Some ErrNoResource)"
    unfolding run ended_def using reportName_failure [of dR migration] by auto
  from run hs ad en er show ?thesis by blast
qed

theorem first_accepted_address_wins_witness:
  "resolve sampleEnv sampleCmd ''c1'' ''remote:c2'' False = Inr (samplePrepared, sampleLog0) \<and>
   sourceRemote samplePrepared \<noteq> destRemote samplePrepared \<and>
   negotiate sampleEnv sampleLog0 samplePrepared ''remote:c2'' 0 False False
     = Inr (sampleLocals, [''10.0.0.1:8443''] @ ''10.0.0.2:8443'' # [], sampleLog) \<and>
   MigrateFrom sampleEnv sampleLog sampleDest (sampleArgs ''10.0.0.1:8443'' False)
     = Inl ''bad handshake'' \<and>
   MigrateFrom sampleEnv
     (sampleLog @ [CallMigrateFrom sampleDest (sampleArgs ''10.0.0.1:8443'' False)])
     sampleDest (sampleArgs ''10.0.0.2:8443'' False) = Inr sampleMigration \<and>
   copyContainer sampleEnv sampleCmd ''c1'' ''remote:c2'' False 0 False False =
     (Return None,
      sampleLog @
      [CallMigrateFrom sampleDest (sampleArgs ''10.0.0.1:8443'' False),
       CallMigrateFrom sampleDest (sampleArgs ''10.0.0.2:8443'' False),
       CallWaitForSuccess sampleDest ''/1.0/operations/recv'',
       CallWaitForSuccess sampleSource ''/1.0/operations/mig''],
      []) \<and>
   handshakes (calls (copyContainer sampleEnv sampleCmd ''c1'' ''remote:c2'' False 0 False False))
     = [sampleArgs ''10.0.0.1:8443'' False, sampleArgs ''10.0.0.2:8443'' False]"
proof -
  let ?H = "\<lambda>a. CallMigrateFrom (dest sampleLocals) (migrateArgsFor sampleLocals a)"
  have h1: "resolve sampleEnv sampleCmd ''c1'' ''remote:c2'' False
      = Inr (samplePrepared, sampleLog0)"
    by (rule sample_resolve)
  have h2: "sourceRemote samplePrepared \<noteq> destRemote samplePrepared"
    by (simp add: samplePrepared_def)
  have h3: "negotiate sampleEnv sampleLog0 samplePrepared ''remote:c2'' 0 False False
     = Inr (sampleLocals, [''10.0.0.1:8443''] @ ''10.0.0.2:8443'' # [], sampleLog)"
    using sample_negotiate by simp
  have h4: "\<forall>i<length [''10.0.0.1:8443''].
      \<exists>e. MigrateFrom sampleEnv (sampleLog @ map ?H (take i [''10.0.0.1:8443'']))
        (dest sampleLocals) (migrateArgsFor sampleLocals ([''10.0.0.1:8443''] ! i)) = Inl e"
    by (simp add: sample_args) (simp add: sample_defs)
  have h5: "MigrateFrom sampleEnv (sampleLog @ map ?H [''10.0.0.1:8443''])
        (dest sampleLocals) (migrateArgsFor sampleLocals ''10.0.0.2:8443'') = Inr sampleMigration"
    by (simp add: sample_args) (simp add: sample_defs)
  have h6: "WaitForSuccess sampleEnv
        (sampleLog @ map ?H ([''10.0.0.1:8443''] @ [''10.0.0.2:8443'']))
        (dest sampleLocals) (Operation sampleMigration) = None"
    by (simp add: sampleEnv_def)
  have h7: "WaitForSuccess sampleEnv
        (sampleLog @ map ?H ([''10.0.0.1:8443''] @ [''10.0.0.2:8443'']))
        (source sampleLocals) (Operation (sourceWSResponse sampleLocals)) = None"
    by (simp add: sampleEnv_def)
  have r: "reportName ''remote:c2'' sampleMigration = (Return None, [])"
    by (simp add: reportName_def)
  have d: "dest sampleLocals = sampleDest" "source sampleLocals = sampleSource"
    "Operation sampleMigration = ''/1.0/operations/recv''"
    "Operation (sourceWSResponse sampleLocals) = ''/1.0/operations/mig''"
    by (simp_all add: sampleLocals_def sampleMigration_def sampleSession_def)
  have m1: "MigrateFrom sampleEnv sampleLog sampleDest (sampleArgs ''10.0.0.1:8443'' False)
     = Inl ''bad handshake''"
    by (simp add: sample_defs)
  have m2: "MigrateFrom sampleEnv
     (sampleLog @ [CallMigrateFrom sampleDest (sampleArgs ''10.0.0.1:8443'' False)])
     sampleDest (sampleArgs ''10.0.0.2:8443'' False) = Inr sampleMigration"
    by (simp add: sample_defs)
  from first_accepted_address_wins [OF h1 h2 h3 h4 h5 h6 h7] h1 h2 h3 m1 m2
  show ?thesis
    by (simp add: r d sample_args calls_def sampleLog_def sampleLog0_def)
qed

text \<open>
  C4 (as stated) fails: the same-name error comes after the lookup of the source, and
  when that lookup fails its error is returned instead.
\<close>

theorem same_name_checked_after_lookup:
  "copyContainer sampleEnv sampleCmd ''c1'' ''c1'' False 0 False False =
     (Return (Some ErrSameName),
      [CallNewClient ''local'', CallContainerInfo sampleSource ''c1''], []) \<and>
   copyContainer sampleEnv sampleCmd ''c1/snap0'' ''c1/snap0'' False 0 False False =
     (Return (Some (Upstream ''not found'')),
      [CallNewClient ''local'', CallSnapshotInfo sampleSource ''c1/snap0''], [])"
  by (simp add: model_defs sample_defs fmap_eval)

text \<open>
  C4 (as amended). In a request within one endpoint whose source and destination names
  are equal, once the client of the source is made, the lookup of the source has
  answered and the merge has not panicked, the function returns the same-name error;
  the log then holds the making of the client and that one lookup, and no copy request.
\<close>

theorem same_name_fails_after_lookup:
  assumes "resolve env c sR dR kv = Inr (p, t)"
    and "sourceRemote p = destRemote p"
    and "sourceName p = destName p"
  shows "copyContainer env c sR dR kv eph stateful cOnly = (Return (Some ErrSameName), t, [])
     \<and> (t = [CallNewClient (sourceRemote p), CallContainerInfo (source p) (sourceName p)] \<or>
        t = [CallNewClient (sourceRemote p), CallSnapshotInfo (source p) (sourceName p)])"
  using assms resolve_Inr_log [OF assms(1)]
  by (simp add: copyContainer_def localCopy_def)

theorem same_name_fails_after_lookup_witness:
  "resolve sampleEnv sampleCmd ''c1'' ''c1'' False
     = Inr (samplePrepared\<lparr>destRemote := ''local'', destName := ''c1''\<rparr>, sampleLog0) \<and>
   copyContainer sampleEnv sampleCmd ''c1'' ''c1'' False 0 False False
     = (Return (Some ErrSameName), sampleLog0, [])"
proof -
  let ?p = "samplePrepared\<lparr>destRemote := ''local'', destName := ''c1''\<rparr>"
  have r: "resolve sampleEnv sampleCmd ''c1'' ''c1'' False = Inr (?p, sampleLog0)"
    by (simp add: model_defs sample_defs fmap_eval)
  have "sourceRemote ?p = destRemote ?p" "sourceName ?p = destName ?p"
    by (simp_all add: samplePrepared_def)
  from same_name_fails_after_lookup [OF r this] r show ?thesis by simp
qed

text \<open>What leaves the function with any request: unless volatile keys are to be kept,
  configuration maps without volatile keys, and with every handshake the base image of
  the merged configuration.\<close>

lemma sent_configs_and_base_image:
  "(\<not> kv \<longrightarrow>
      (\<forall>cfg\<in>set (sentConfigs (calls (copyContainer env c sR dR kv eph stateful cOnly))).
         noVolatile cfg)) \<and>
   (\<forall>a\<in>set (handshakes (calls (copyContainer env c sR dR kv eph stateful cOnly))).
      \<exists>src st0 t merged.
        NewClient env [] (fst (ParseRemoteAndContainer env sR)) = Inr src \<and>
        fetchStatus env [CallNewClient (fst (ParseRemoteAndContainer env sR))] src
          (snd (ParseRemoteAndContainer env sR)) = (Inr st0, t) \<and>
        mergeConfig (configMap env) (Config st0) = Inr merged \<and>
        mf_baseImage a = lookupString merged ''volatile.base_image'')"
  using copyContainer_sent [of env c sR dR kv eph stateful cOnly]
proof
  assume "sentConfigs (calls (copyContainer env c sR dR kv eph stateful cOnly)) = []"
  then show ?thesis using sentConfigs_no_handshakes by fastforce
next
  assume "\<exists>p t. resolve env c sR dR kv = Inr (p, t) \<and>
      set (sentConfigs (calls (copyContainer env c sR dR kv eph stateful cOnly)))
        \<subseteq> {Config (state p)} \<and>
      (\<forall>a\<in>set (handshakes (calls (copyContainer env c sR dR kv eph stateful cOnly))).
         mf_baseImage a = baseImage p)"
  then obtain p t where r: "resolve env c sR dR kv = Inr (p, t)"
    and s: "set (sentConfigs (calls (copyContainer env c sR dR kv eph stateful cOnly)))
        \<subseteq> {Config (state p)}"
    and b: "\<forall>a\<in>set (handshakes (calls (copyContainer env c sR dR kv eph stateful cOnly))).
         mf_baseImage a = baseImage p"
    by blast
  from resolve_Inr [OF r] obtain st0 merged where
    f: "NewClient env [] (fst (ParseRemoteAndContainer env sR)) = Inr (source p)"
       "fetchStatus env [CallNewClient (fst (ParseRemoteAndContainer env sR))] (source p)
          (snd (ParseRemoteAndContainer env sR)) = (Inr st0, t)"
       "mergeConfig (configMap env) (Config st0) = Inr merged"
       "baseImage p = lookupString merged ''volatile.base_image''"
       "Config (state p) = (if \<not> kv then dropVolatile merged else merged)"
    by auto
  have "\<not> kv \<longrightarrow>
      (\<forall>cfg\<in>set (sentConfigs (calls (copyContainer env c sR dR kv eph stateful cOnly))).
         noVolatile cfg)"
    using s f(5) noVolatile_dropVolatile by auto
  moreover have "\<forall>a\<in>set (handshakes (calls (copyContainer env c sR dR kv eph stateful cOnly))).
      \<exists>src st0 t merged.
        NewClient env [] (fst (ParseRemoteAndContainer env sR)) = Inr src \<and>
        fetchStatus env [CallNewClient (fst (ParseRemoteAndContainer env sR))] src
          (snd (ParseRemoteAndContainer env sR)) = (Inr st0, t) \<and>
        mergeConfig (configMap env) (Config st0) = Inr merged \<and>
        mf_baseImage a = lookupString merged ''volatile.base_image''"
  proof
    fix a
    assume "a \<in> set (handshakes (calls (copyContainer env c sR dR kv eph stateful cOnly)))"
    with b have "mf_baseImage a = lookupString merged ''volatile.base_image''"
      using f(4) by simp
    with f(1-3) show "\<exists>src st0 t merged.
        NewClient env [] (fst (ParseRemoteAndContainer env sR)) = Inr src \<and>
        fetchStatus env [CallNewClient (fst (ParseRemoteAndContainer env sR))] src
          (snd (ParseRemoteAndContainer env sR)) = (Inr st0, t) \<and>
        mergeConfig (configMap env) (Config st0) = Inr merged \<and>
        mf_baseImage a = lookupString merged ''volatile.base_image''"
      by (intro exI [of _ "source p"] exI [of _ st0] exI [of _ t] exI [of _ merged]) simp
  qed
  ultimately show ?thesis by blast
qed

lemma noVolatile_no_base_image:
  assumes "noVolatile cfg"
  shows "lookupString cfg ''volatile.base_image'' = []"
proof (cases cfg)
  case None
  then show ?thesis by (simp add: lookupString_def)
next
  case (Some m)
  have "fmlookup m ''volatile.base_image'' = None"
  proof (cases "fmlookup m ''volatile.base_image''")
    case (Some v)
    with assms \<open>cfg = Some m\<close> have "\<not> HasPrefix ''volatile.base_image'' ''volatile''"
      by (auto simp: noVolatile_def fmpred_iff)
    then show ?thesis by (simp add: HasPrefix_def)
  qed simp
  with Some show ?thesis by (simp add: lookupString_def)
qed

lemma same_remote_no_handshake:
  assumes "fst (ParseRemoteAndContainer env sR) = fst (ParseRemoteAndContainer env dR)"
  shows "handshakes (calls (copyContainer env c sR dR kv eph stateful cOnly)) = []"
proof (rule ccontr)
  assume "handshakes (calls (copyContainer env c sR dR kv eph stateful cOnly)) \<noteq> []"
  with copyContainer_handshakes [of env c sR dR kv eph stateful cOnly]
  obtain p t where "resolve env c sR dR kv = Inr (p, t)" "sourceRemote p \<noteq> destRemote p"
    by auto
  with resolve_Inr [of env c sR dR kv p t] assms show False by auto
qed

text \<open>
  C5 (as stated) fails: a copy within one endpoint makes no handshake, and its copy
  request has no argument for the base image. With volatile keys dropped, the
  configuration map it sends has no entry under \<^verbatim>\<open>volatile.base_image\<close> either, so
  the base image of the source reaches the destination nowhere.
\<close>

theorem local_copy_sends_no_base_image:
  "lookupString (Config sampleContainer) ''volatile.base_image'' = ''img1'' \<and>
   copyContainer sampleEnv sampleCmd ''c1'' ''c3'' False 0 False False =
     (Return None,
      [CallNewClient ''local'', CallContainerInfo sampleSource ''c1'',
       CallLocalCopy sampleSource ''c1'' ''c3'' (Some (fmap_of_list [(''limits.cpu'', ''2'')]))
         [''default''] False False,
       CallWaitForSuccess sampleSource ''/1.0/operations/cp''],
      []) \<and>
   fmlookup (fmap_of_list [(''limits.cpu'', ''2'')]) ''volatile.base_image'' = None"
  by (simp add: model_defs sample_defs fmap_eval)

text \<open>
  C5 (as amended). Unless volatile keys are to be kept, no configuration map sent with
  a copy request or a handshake has a key with the prefix \<^verbatim>\<open>volatile\<close>, and so none
  has an entry under \<^verbatim>\<open>volatile.base_image\<close>. In a migration between two endpoints,
  whatever the flag, every handshake carries as base image the value under
  \<^verbatim>\<open>volatile.base_image\<close> in the looked-up configuration merged with the overrides. A
  copy within one endpoint makes no handshake.
\<close>

theorem volatile_dropped_base_image_kept:
  "(\<not> kv \<longrightarrow>
      (\<forall>cfg\<in>set (sentConfigs (calls (copyContainer env c sR dR kv eph stateful cOnly))).
         noVolatile cfg \<and> lookupString cfg ''volatile.base_image'' = [])) \<and>
   (\<forall>a\<in>set (handshakes (calls (copyContainer env c sR dR kv eph stateful cOnly))).
      \<exists>src st0 t merged.
        NewClient env [] (fst (ParseRemoteAndContainer env sR)) = Inr src \<and>
        fetchStatus env [CallNewClient (fst (ParseRemoteAndContainer env sR))] src
          (snd (ParseRemoteAndContainer env sR)) = (Inr st0, t) \<and>
        mergeConfig (configMap env) (Config st0) = Inr merged \<and>
        mf_baseImage a = lookupString merged ''volatile.base_image'') \<and>
   (fst (ParseRemoteAndContainer env sR) = fst (ParseRemoteAndContainer env dR) \<longrightarrow>
      handshakes (calls (copyContainer env c sR dR kv eph stateful cOnly)) = [])"
  using sent_configs_and_base_image [of kv env c sR dR eph stateful cOnly]
    noVolatile_no_base_image
    same_remote_no_handshake [of env sR dR c kv eph stateful cOnly]
  by blast

theorem volatile_dropped_base_image_kept_witness:
  "fmlookup (the (Config sampleContainer)) ''volatile.base_image'' = Some ''img1'' \<and>
   handshakes (calls (copyContainer sampleEnv sampleCmd ''c1'' ''remote:c2'' False 0 False False))
     = [sampleArgs ''10.0.0.1:8443'' False, sampleArgs ''10.0.0.2:8443'' False] \<and>
   noVolatile (mf_config (sampleArgs ''10.0.0.1:8443'' False)) \<and>
   mf_baseImage (sampleArgs ''10.0.0.1:8443'' False) = ''img1'' \<and>
   handshakes (calls (copyContainer sampleEnv sampleCmd ''c1'' ''remote:c2'' True 0 False False))
     = [(sampleArgs ''10.0.0.1:8443'' False)\<lparr>mf_config := Config sampleContainer\<rparr>,
        (sampleArgs ''10.0.0.2:8443'' False)\<lparr>mf_config := Config sampleContainer\<rparr>] \<and>
   mf_baseImage ((sampleArgs ''10.0.0.1:8443'' False)\<lparr>mf_config := Config sampleContainer\<rparr>)
     = lookupString (Config sampleContainer) ''volatile.base_image'' \<and>
   lookupString (mf_config (sampleArgs ''10.0.0.1:8443'' False)) ''volatile.base_image'' = [] \<and>
   fst (ParseRemoteAndContainer sampleEnv ''c1'') = fst (ParseRemoteAndContainer sampleEnv ''c4'') \<and>
   handshakes (calls (copyContainer sampleEnv sampleCmd ''c1'' ''c4'' True 0 False False)) = []"
proof -
  let ?off = "copyContainer sampleEnv sampleCmd ''c1'' ''remote:c2'' False 0 False False"
  let ?on = "copyContainer sampleEnv sampleCmd ''c1'' ''remote:c2'' True 0 False False"
  have k: "fmlookup (the (Config sampleContainer)) ''volatile.base_image'' = Some ''img1''"
    by (simp add: sampleContainer_def)
  have hoff: "handshakes (calls ?off)
     = [sampleArgs ''10.0.0.1:8443'' False, sampleArgs ''10.0.0.2:8443'' False]"
    by (simp add: model_defs sample_defs fmap_eval calls_def)
  have hon: "handshakes (calls ?on)
     = [(sampleArgs ''10.0.0.1:8443'' False)\<lparr>mf_config := Config sampleContainer\<rparr>,
        (sampleArgs ''10.0.0.2:8443'' False)\<lparr>mf_config := Config sampleContainer\<rparr>]"
    by (simp add: model_defs sample_defs fmap_eval calls_def)
  have soff: "mf_config (sampleArgs ''10.0.0.1:8443'' False) \<in> set (sentConfigs (calls ?off))"
    by (simp add: sample_sent) (simp add: sampleArgs_def)
  have nc: "NewClient sampleEnv [] (fst (ParseRemoteAndContainer sampleEnv ''c1'')) = Inr src
      \<Longrightarrow> src = sampleSource" for src
    by (auto simp: sample_defs)
  have fs: "fetchStatus sampleEnv [CallNewClient (fst (ParseRemoteAndContainer sampleEnv ''c1''))]
        sampleSource (snd (ParseRemoteAndContainer sampleEnv ''c1'')) = (Inr st0, t)
      \<Longrightarrow> Config st0 = Config sampleContainer" for st0 t
    by (auto simp: sample_defs fetchStatus_def)
  have mc: "mergeConfig (configMap sampleEnv) (Config sampleContainer) = Inr merged
      \<Longrightarrow> merged = Config sampleContainer" for merged
    by (auto simp: sample_defs mergeConfig_def)
  from volatile_dropped_base_image_kept [of False sampleEnv sampleCmd "''c1''" "''remote:c2''"
        0 False False] soff
  have nv: "noVolatile (mf_config (sampleArgs ''10.0.0.1:8443'' False))"
    by blast
  have "sampleArgs ''10.0.0.1:8443'' False \<in> set (handshakes (calls ?off))"
    by (simp add: hoff)
  with volatile_dropped_base_image_kept [of False sampleEnv sampleCmd "''c1''" "''remote:c2''"
        0 False False]
  obtain src st0 t merged where
    "NewClient sampleEnv [] (fst (ParseRemoteAndContainer sampleEnv ''c1'')) = Inr src"
    "fetchStatus sampleEnv [CallNewClient (fst (ParseRemoteAndContainer sampleEnv ''c1''))] src
          (snd (ParseRemoteAndContainer sampleEnv ''c1'')) = (Inr st0, t)"
    "mergeConfig (configMap sampleEnv) (Config st0) = Inr merged"
    "mf_baseImage (sampleArgs ''10.0.0.1:8443'' False)
       = lookupString merged ''volatile.base_image''"
    by blast
  with nc fs mc have "mf_baseImage (sampleArgs ''10.0.0.1:8443'' False)
       = lookupString (Config sampleContainer) ''volatile.base_image''"
    by metis
  then have boff: "mf_baseImage (sampleArgs ''10.0.0.1:8443'' False) = ''img1''"
    by (simp add: lookupString_def sampleContainer_def)
  have "(sampleArgs ''10.0.0.1:8443'' False)\<lparr>mf_config := Config sampleContainer\<rparr>
      \<in> set (handshakes (calls ?on))"
    by (simp add: hon)
  with volatile_dropped_base_image_kept [of True sampleEnv sampleCmd "''c1''" "''remote:c2''"
        0 False False]
  obtain src st0 t merged where
    "NewClient sampleEnv [] (fst (ParseRemoteAndContainer sampleEnv ''c1'')) = Inr src"
    "fetchStatus sampleEnv [CallNewClient (fst (ParseRemoteAndContainer sampleEnv ''c1''))] src
          (snd (ParseRemoteAndContainer sampleEnv ''c1'')) = (Inr st0, t)"
    "mergeConfig (configMap sampleEnv) (Config st0) = Inr merged"
    "mf_baseImage ((sampleArgs ''10.0.0.1:8443'' False)\<lparr>mf_config := Config sampleContainer\<rparr>)
       = lookupString merged ''volatile.base_image''"
    by blast
  with nc fs mc have bon:
    "mf_baseImage ((sampleArgs ''10.0.0.1:8443'' False)\<lparr>mf_config := Config sampleContainer\<rparr>)
       = lookupString (Config sampleContainer) ''volatile.base_image''"
    by metis
  from volatile_dropped_base_image_kept [of False sampleEnv sampleCmd "''c1''" "''remote:c2''"
        0 False False] soff
  have nb: "lookupString (mf_config (sampleArgs ''10.0.0.1:8443'' False)) ''volatile.base_image''
      = []"
    by blast
  have sr: "fst (ParseRemoteAndContainer sampleEnv ''c1'')
      = fst (ParseRemoteAndContainer sampleEnv ''c4'')"
    by (simp add: sample_defs)
  with volatile_dropped_base_image_kept [of True sampleEnv sampleCmd "''c1''" "''c4''"
        0 False False]
  have lc: "handshakes (calls (copyContainer sampleEnv sampleCmd ''c1'' ''c4'' True 0 False False))
      = []"
    by blast
  from k hoff nv boff hon bon nb sr lc show ?thesis by blast
qed

text \<open>
  C6. Between two endpoints, when the destination's catalogue lacks one of the merged
  profiles, the function returns the profile error right after listing the profiles:
  no migration session is requested and no handshake is made. In every run the
  profiles are listed at most once, never when the two remotes are the same, and
  exactly once in a run that makes a handshake, however many addresses it tries.
\<close>

theorem missing_profile_stops_migration:
  "(resolve env c sR dR kv = Inr (p, t) \<and> sourceRemote p \<noteq> destRemote p \<and>
    NewClient env t (destRemote p) = Inr dst \<and>
    ListProfiles env (t @ [CallNewClient (destRemote p)]) dst = Inr destProfs \<and>
    \<not> set (Profiles (state p)) \<subseteq> set destProfs \<longrightarrow>
      copyContainer env c sR dR kv eph stateful cOnly =
        (Return (Some ErrProfiles), t @ [CallNewClient (destRemote p), CallListProfiles dst], [])
      \<and> filter isGetMigrationSourceWS
           (calls (copyContainer env c sR dR kv eph stateful cOnly)) = []
      \<and> handshakes (calls (copyContainer env c sR dR kv eph stateful cOnly)) = []) \<and>
   length (filter isListProfiles (calls (copyContainer env c sR dR kv eph stateful cOnly))) \<le> 1
   \<and> (fst (ParseRemoteAndContainer env sR) = fst (ParseRemoteAndContainer env dR) \<longrightarrow>
        filter isListProfiles (calls (copyContainer env c sR dR kv eph stateful cOnly)) = [])
   \<and> (handshakes (calls (copyContainer env c sR dR kv eph stateful cOnly)) \<noteq> [] \<longrightarrow>
        length (filter isListProfiles
          (calls (copyContainer env c sR dR kv eph stateful cOnly))) = 1)"
proof -
  have "copyContainer env c sR dR kv eph stateful cOnly =
        (Return (Some ErrProfiles), t @ [CallNewClient (destRemote p), CallListProfiles dst], [])
      \<and> filter isGetMigrationSourceWS
           (calls (copyContainer env c sR dR kv eph stateful cOnly)) = []
      \<and> handshakes (calls (copyContainer env c sR dR kv eph stateful cOnly)) = []"
    if r: "resolve env c sR dR kv = Inr (p, t)" and d: "sourceRemote p \<noteq> destRemote p"
      and n: "NewClient env t (destRemote p) = Inr dst"
      and l: "ListProfiles env (t @ [CallNewClient (destRemote p)]) dst = Inr destProfs"
      and m: "\<not> set (Profiles (state p)) \<subseteq> set destProfs"
  proof -
    have "negotiate env t p dR eph stateful cOnly =
        Inl (Return (Some ErrProfiles), t @ [CallNewClient (destRemote p), CallListProfiles dst], [])"
      using n l m by (simp add: negotiate_def)
    with r d have run: "copyContainer env c sR dR kv eph stateful cOnly =
        (Return (Some ErrProfiles), t @ [CallNewClient (destRemote p), CallListProfiles dst], [])"
      by (simp add: copyContainer_def migrate_def)
    from resolve_Inr_quiet [OF r] sentConfigs_no_handshakes [of t]
    have "filter isGetMigrationSourceWS t = []" "handshakes t = []" by simp_all
    with run show ?thesis by (simp add: calls_def handshakes_append)
  qed
  with copyContainer_listProfiles [of env c sR dR kv eph stateful cOnly] show ?thesis
    by blast
qed

theorem missing_profile_stops_migration_witness:
  "resolve otherProfilesEnv sampleCmd ''c1'' ''remote:c2'' False
     = Inr (samplePrepared, sampleLog0) \<and>
   sourceRemote samplePrepared \<noteq> destRemote samplePrepared \<and>
   NewClient otherProfilesEnv sampleLog0 (destRemote samplePrepared) = Inr sampleDest \<and>
   ListProfiles otherProfilesEnv (sampleLog0 @ [CallNewClient (destRemote samplePrepared)])
     sampleDest = Inr [''web''] \<and>
   \<not> set (Profiles (state samplePrepared)) \<subseteq> set [''web''] \<and>
   copyContainer otherProfilesEnv sampleCmd ''c1'' ''remote:c2'' False 0 False False
     = (Return (Some ErrProfiles),
        sampleLog0 @ [CallNewClient ''remote'', CallListProfiles sampleDest], []) \<and>
   fst (ParseRemoteAndContainer sampleEnv ''c1'') = fst (ParseRemoteAndContainer sampleEnv ''c3'') \<and>
   filter isListProfiles
     (calls (copyContainer sampleEnv sampleCmd ''c1'' ''c3'' False 0 False False)) = [] \<and>
   length (filter isListProfiles
     (calls (copyContainer sampleEnv sampleCmd ''c1'' ''remote:c2'' False 0 False False))) = 1"
proof -
  have r: "resolve otherProfilesEnv sampleCmd ''c1'' ''remote:c2'' False
     = Inr (samplePrepared, sampleLog0)"
    by (simp add: otherProfilesEnv_def model_defs sample_defs fmap_eval)
  have d: "sourceRemote samplePrepared \<noteq> destRemote samplePrepared"
    by (simp add: samplePrepared_def)
  have n: "NewClient otherProfilesEnv sampleLog0 (destRemote samplePrepared) = Inr sampleDest"
    by (simp add: otherProfilesEnv_def sample_defs)
  have l: "ListProfiles otherProfilesEnv
     (sampleLog0 @ [CallNewClient (destRemote samplePrepared)]) sampleDest = Inr [''web'']"
    by (simp add: otherProfilesEnv_def sample_defs)
  have m: "\<not> set (Profiles (state samplePrepared)) \<subseteq> set [''web'']"
    by (simp add: samplePrepared_def sampleState_def)
  have s: "fst (ParseRemoteAndContainer sampleEnv ''c1'')
      = fst (ParseRemoteAndContainer sampleEnv ''c3'')"
    by (simp add: sample_defs)
  from missing_profile_stops_migration [of otherProfilesEnv sampleCmd "''c1''" "''remote:c2''"
      False samplePrepared sampleLog0 sampleDest "[''web'']" 0 False False] r d n l m
  have c: "copyContainer otherProfilesEnv sampleCmd ''c1'' ''remote:c2'' False 0 False False
     = (Return (Some ErrProfiles),
        sampleLog0 @ [CallNewClient ''remote'', CallListProfiles sampleDest], [])"
    by (simp add: samplePrepared_def)
  from missing_profile_stops_migration [of sampleEnv sampleCmd "''c1''" "''c3''"
      False samplePrepared sampleLog0 sampleDest "[''web'']" 0 False False] s
  have e: "filter isListProfiles
     (calls (copyContainer sampleEnv sampleCmd ''c1'' ''c3'' False 0 False False)) = []"
    by blast
  have o: "length (filter isListProfiles
     (calls (copyContainer sampleEnv sampleCmd ''c1'' ''remote:c2'' False 0 False False))) = 1"
    by (simp add: model_defs sample_defs fmap_eval calls_def)
  from r d n l m c s e o show ?thesis by blast
qed

text \<open>
  C7 (as stated) fails: with no destination resource the destination name stays empty,
  the copy request goes out with the empty name, and the endpoint picks the name that
  is then printed.
\<close>

theorem no_destination_keeps_parsed_name:
  "copyContainer sampleEnv sampleCmd ''c1'' [] False 0 False False =
     (Return None,
      [CallNewClient ''local'', CallContainerInfo sampleSource ''c1'',
       CallLocalCopy sampleSource ''c1'' [] (Some (fmap_of_list [(''limits.cpu'', ''2'')]))
         [''default''] False False,
       CallWaitForSuccess sampleSource ''/1.0/operations/cp''],
      [''Container name is: happy-cat'' @ [CHR 0x0A]])"
  by (simp add: model_defs sample_defs fmap_eval)

text \<open>
  C7 (as amended). An empty source name ends the function with the error that asks for
  a source name, before any call. The destination name becomes the source name when a
  destination resource is given and its name part is empty; when no destination
  resource is given the name stays as parsed.
\<close>

theorem destination_name_default:
  "(snd (ParseRemoteAndContainer env sR) = [] \<longrightarrow>
      copyContainer env c sR dR kv eph stateful cOnly = (Return (Some ErrNoSourceName), [], []))
   \<and> (resolve env c sR dR kv = Inr (p, t) \<longrightarrow>
        sourceName p = snd (ParseRemoteAndContainer env sR) \<and> sourceName p \<noteq> [] \<and>
        destName p = (if snd (ParseRemoteAndContainer env dR) = [] \<and> dR \<noteq> []
                      then sourceName p else snd (ParseRemoteAndContainer env dR)))"
proof (intro conjI impI)
  assume "snd (ParseRemoteAndContainer env sR) = []"
  then have "resolve env c sR dR kv = Inl (Return (Some ErrNoSourceName), [], [])"
    by (cases "ParseRemoteAndContainer env sR"; cases "ParseRemoteAndContainer env dR")
      (simp add: resolve_def)
  then show "copyContainer env c sR dR kv eph stateful cOnly
      = (Return (Some ErrNoSourceName), [], [])"
    by (simp add: copyContainer_def)
qed (use resolve_Inr [of env c sR dR kv p t] in auto)

theorem destination_name_default_witness:
  "snd (ParseRemoteAndContainer sampleEnv ''remote:'') = [] \<and>
   copyContainer sampleEnv sampleCmd ''remote:'' ''c2'' False 0 False False
     = (Return (Some ErrNoSourceName), [], []) \<and>
   resolve sampleEnv sampleCmd ''c1'' ''remote:'' False
     = Inr (samplePrepared\<lparr>destName := ''c1''\<rparr>, sampleLog0) \<and>
   destName (samplePrepared\<lparr>destName := ''c1''\<rparr>) = ''c1'' \<and>
   resolve sampleEnv sampleCmd ''c1'' [] False
     = Inr (samplePrepared\<lparr>destRemote := ''local'', destName := []\<rparr>, sampleLog0) \<and>
   destName (samplePrepared\<lparr>destRemote := ''local'', destName := []\<rparr>) = []"
proof -
  have e: "snd (ParseRemoteAndContainer sampleEnv ''remote:'') = []"
    by (simp add: sample_defs)
  have r1: "resolve sampleEnv sampleCmd ''c1'' ''remote:'' False
     = Inr (samplePrepared\<lparr>destName := ''c1''\<rparr>, sampleLog0)"
    by (simp add: model_defs sample_defs fmap_eval)
  have r2: "resolve sampleEnv sampleCmd ''c1'' [] False
     = Inr (samplePrepared\<lparr>destRemote := ''local'', destName := []\<rparr>, sampleLog0)"
    by (simp add: model_defs sample_defs fmap_eval)
  from destination_name_default [of sampleEnv "''remote:''" sampleCmd "''c2''" False 0 False False]
    e
  have a: "copyContainer sampleEnv sampleCmd ''remote:'' ''c2'' False 0 False False
     = (Return (Some ErrNoSourceName), [], [])"
    by blast
  from destination_name_default [of sampleEnv "''c1''" sampleCmd "''remote:''" False 0 False False
      "samplePrepared\<lparr>destName := ''c1''\<rparr>" sampleLog0] r1
  have b: "destName (samplePrepared\<lparr>destName := ''c1''\<rparr>) = ''c1''"
    by (simp add: sample_defs)
  from destination_name_default [of sampleEnv "''c1''" sampleCmd "[]" False 0 False False
      "samplePrepared\<lparr>destRemote := ''local'', destName := []\<rparr>" sampleLog0] r2
  have c: "destName (samplePrepared\<lparr>destRemote := ''local'', destName := []\<rparr>) = []"
    by (simp add: sample_defs)
  from e a r1 b r2 c show ?thesis by blast
qed

text \<open>
  C8 (as stated) fails: with the destination \<^verbatim>\<open>remote:\<close> the caller gives no
  destination name, the name defaults to that of the source, the migration succeeds,
  and nothing is printed.
\<close>

theorem endpoint_only_destination_not_reported:
  "ParseRemoteAndContainer sampleEnv ''remote:'' = (''remote'', []) \<and>
   copyContainer sampleEnv sampleCmd ''c1'' ''remote:'' False 0 False False =
     (Return None,
      sampleLog @
      [CallMigrateFrom sampleDest ((sampleArgs ''10.0.0.1:8443'' False)\<lparr>mf_name := ''c1''\<rparr>),
       CallMigrateFrom sampleDest ((sampleArgs ''10.0.0.2:8443'' False)\<lparr>mf_name := ''c1''\<rparr>),
       CallWaitForSuccess sampleDest ''/1.0/operations/recv'',
       CallWaitForSuccess sampleSource ''/1.0/operations/mig''],
      [])"
  by (simp add: model_defs sample_defs fmap_eval)

text \<open>
  C8 (as amended). The report after a successful copy or migration depends on the
  destination resource string, not on the name in it: nothing is printed when a
  destination resource was given; when none was given the name printed is the part
  after the last slash of the first entry under \<^verbatim>\<open>containers\<close>, and the function
  returns the missing-resource error when the metadata does not decode, or has no such
  entry, or an empty one. The local copy and the accepted attempt end with this report.
\<close>

theorem created_name_reported:
  "(dR \<noteq> [] \<longrightarrow> reportName dR resp = (Return None, [])) \<and>
   (MetadataAsOperation resp = Inr op \<and>
    fmlookup (Resources op) ''containers'' = Some (first # others) \<longrightarrow>
      reportName [] resp =
        (Return None, [''Container name is: '' @ last (Split first CHR ''/'') @ [CHR 0x0A]]) \<and>
      CHR ''/'' \<notin> set (last (Split first CHR ''/'')) \<and>
      (first = last (Split first CHR ''/'') \<or>
       (\<exists>dir. first = dir @ CHR ''/'' # last (Split first CHR ''/'')))) \<and>
   ((\<exists>e. MetadataAsOperation resp = Inl e) \<or>
    (\<exists>op. MetadataAsOperation resp = Inr op \<and>
       (fmlookup (Resources op) ''containers'' = None \<or>
        fmlookup (Resources op) ''containers'' = Some [])) \<longrightarrow>
      reportName [] resp = (Return (Some ErrNoResource), [])) \<and>
   (sourceName p \<noteq> destName p \<and>
    LocalCopy env t (source p) (sourceName p) (destName p) (Config (state p))
      (Profiles (state p)) (eph = 1) cOnly = Inr cp \<and>
    WaitForSuccess env
      (t @ [CallLocalCopy (source p) (sourceName p) (destName p) (Config (state p))
              (Profiles (state p)) (eph = 1) cOnly])
      (source p) (Operation cp) = None \<longrightarrow>
      (ended (localCopy env t p dR eph cOnly), printed (localCopy env t p dR eph cOnly))
        = reportName dR cp) \<and>
   (MigrateFrom env t (dest x) (migrateArgsFor x addr) = Inr migration \<and>
    WaitForSuccess env (t @ [CallMigrateFrom (dest x) (migrateArgsFor x addr)])
      (dest x) (Operation migration) = None \<and>
    WaitForSuccess env (t @ [CallMigrateFrom (dest x) (migrateArgsFor x addr)])
      (source x) (Operation (sourceWSResponse x)) = None \<longrightarrow>
      (ended (attempts env x (addr # rest) m t), printed (attempts env x (addr # rest) m t))
        = reportName (destResource x) migration)"
proof (intro conjI impI)
  assume "MigrateFrom env t (dest x) (migrateArgsFor x addr) = Inr migration \<and>
    WaitForSuccess env (t @ [CallMigrateFrom (dest x) (migrateArgsFor x addr)])
      (dest x) (Operation migration) = None \<and>
    WaitForSuccess env (t @ [CallMigrateFrom (dest x) (migrateArgsFor x addr)])
      (source x) (Operation (sourceWSResponse x)) = None"
  then show "(ended (attempts env x (addr # rest) m t),
              printed (attempts env x (addr # rest) m t))
        = reportName (destResource x) migration"
    using attempts_accepted [of env t x addr migration rest m]
    by (simp add: ended_def printed_def)
next
  assume "sourceName p \<noteq> destName p \<and>
    LocalCopy env t (source p) (sourceName p) (destName p) (Config (state p))
      (Profiles (state p)) (eph = 1) cOnly = Inr cp \<and>
    WaitForSuccess env
      (t @ [CallLocalCopy (source p) (sourceName p) (destName p) (Config (state p))
              (Profiles (state p)) (eph = 1) cOnly])
      (source p) (Operation cp) = None"
  then show "(ended (localCopy env t p dR eph cOnly), printed (localCopy env t p dR eph cOnly))
        = reportName dR cp"
    by (simp add: localCopy_def ended_def printed_def split: prod.splits)
next
  assume "dR \<noteq> []"
  then show "reportName dR resp = (Return None, [])"
    by (rule reportName_pinned)
next
  assume "MetadataAsOperation resp = Inr op \<and>
    fmlookup (Resources op) ''containers'' = Some (first # others)"
  then show "reportName [] resp =
      (Return None, [''Container name is: '' @ last (Split first CHR ''/'') @ [CHR 0x0A]])"
    by (simp add: reportName_found)
next
  show "CHR ''/'' \<notin> set (last (Split first CHR ''/''))"
    by (rule last_Split_no_sep)
next
  show "first = last (Split first CHR ''/'') \<or>
      (\<exists>dir. first = dir @ CHR ''/'' # last (Split first CHR ''/''))"
    by (rule last_Split_after_sep)
next
  assume "(\<exists>e. MetadataAsOperation resp = Inl e) \<or>
    (\<exists>op. MetadataAsOperation resp = Inr op \<and>
       (fmlookup (Resources op) ''containers'' = None \<or>
        fmlookup (Resources op) ''containers'' = Some []))"
  then show "reportName [] resp = (Return (Some ErrNoResource), [])"
    by (rule reportName_missing)
qed

theorem created_name_reported_witness:
  "MetadataAsOperation sampleCopy
     = Inr \<lparr>Resources = fmap_of_list [(''containers'', [''/1.0/containers/happy-cat''])],
            Metadata = fmempty, Err = []\<rparr> \<and>
   reportName [] sampleCopy = (Return None, [''Container name is: happy-cat'' @ [CHR 0x0A]]) \<and>
   reportName ''c3'' sampleCopy = (Return None, []) \<and>
   reportName [] sampleSession = (Return (Some ErrNoResource), []) \<and>
   copyContainer sampleEnv sampleCmd ''c1'' [] False 0 False False
     = (Return None,
        sampleLog0 @
        [CallLocalCopy sampleSource ''c1'' [] (Some (fmap_of_list [(''limits.cpu'', ''2'')]))
           [''default''] False False,
         CallWaitForSuccess sampleSource ''/1.0/operations/cp''],
        [''Container name is: happy-cat'' @ [CHR 0x0A]])"
proof -
  let ?op = "\<lparr>Resources = fmap_of_list [(''containers'', [''/1.0/containers/happy-cat''])],
            Metadata = fmempty, Err = []\<rparr>"
  let ?p = "samplePrepared\<lparr>destRemote := ''local'', destName := []\<rparr>"
  let ?call = "CallLocalCopy sampleSource ''c1'' [] (Some (fmap_of_list [(''limits.cpu'', ''2'')]))
           [''default''] False False"
  have md: "MetadataAsOperation sampleCopy = Inr ?op"
    by (simp add: sampleCopy_def)
  have lk: "fmlookup (Resources ?op) ''containers'' = Some (''/1.0/containers/happy-cat'' # [])"
    by simp
  have sp: "last (Split ''/1.0/containers/happy-cat'' CHR ''/'') = ''happy-cat''"
    by simp
  from created_name_reported [of "[]" sampleCopy ?op "''/1.0/containers/happy-cat''" "[]"] md lk
  have a: "reportName [] sampleCopy = (Return None, [''Container name is: happy-cat'' @ [CHR 0x0A]])"
    by (simp add: sp)
  from created_name_reported [of "''c3''" sampleCopy]
  have b: "reportName ''c3'' sampleCopy = (Return None, [])"
    by simp
  have "\<exists>op. MetadataAsOperation sampleSession = Inr op \<and>
      (fmlookup (Resources op) ''containers'' = None \<or>
       fmlookup (Resources op) ''containers'' = Some [])"
    by (simp add: sampleSession_def)
  with created_name_reported [of "[]" sampleSession]
  have c: "reportName [] sampleSession = (Return (Some ErrNoResource), [])"
    by blast
  have r: "resolve sampleEnv sampleCmd ''c1'' [] False = Inr (?p, sampleLog0)"
    by (simp add: model_defs sample_defs fmap_eval)
  have h: "sourceName ?p \<noteq> destName ?p"
    "LocalCopy sampleEnv sampleLog0 (source ?p) (sourceName ?p) (destName ?p) (Config (state ?p))
      (Profiles (state ?p)) ((0::int) = 1) False = Inr sampleCopy"
    "WaitForSuccess sampleEnv
      (sampleLog0 @ [CallLocalCopy (source ?p) (sourceName ?p) (destName ?p) (Config (state ?p))
              (Profiles (state ?p)) ((0::int) = 1) False])
      (source ?p) (Operation sampleCopy) = None"
    by (simp_all add: sample_defs)
  from created_name_reported [of "[]" sampleCopy ?op "''/1.0/containers/happy-cat''" "[]"
      ?p sampleEnv sampleLog0 0 False sampleCopy] h
  have "(ended (localCopy sampleEnv sampleLog0 ?p [] 0 False),
         printed (localCopy sampleEnv sampleLog0 ?p [] 0 False)) = reportName [] sampleCopy"
    by blast
  moreover have "calls (localCopy sampleEnv sampleLog0 ?p [] 0 False)
      = sampleLog0 @ [?call, CallWaitForSuccess sampleSource ''/1.0/operations/cp'']"
    by (simp add: localCopy_def calls_def sample_defs reportName_def)
  moreover have "copyContainer sampleEnv sampleCmd ''c1'' [] False 0 False False
      = localCopy sampleEnv sampleLog0 ?p [] 0 False"
    using r by (simp add: copyContainer_def samplePrepared_def)
  ultimately have d: "copyContainer sampleEnv sampleCmd ''c1'' [] False 0 False False
     = (Return None, sampleLog0 @ [?call, CallWaitForSuccess sampleSource ''/1.0/operations/cp''],
        [''Container name is: happy-cat'' @ [CHR 0x0A]])"
    using a by (simp add: ended_def calls_def printed_def prod_eq_iff)
  from md a b c d show ?thesis by blast
qed

text \<open>
  C9. Every handshake carries the ephemeral flag: when the argument is -1 it is the
  \<^verbatim>\<open>Ephemeral\<close> field of a lookup of the source made after the profile check, and
  otherwise whether the argument is 1. \<^verbatim>\<open>run\<close> passes 1 or 0 as its boolean option
  says, so its handshakes carry the option itself.
\<close>

theorem ephemeral_read_from_source:
  "(\<forall>a\<in>set (handshakes (calls (copyContainer env c sR dR kv eph stateful cOnly))).
      (eph \<noteq> -1 \<longrightarrow> mf_ephem a = (eph = 1)) \<and>
      (eph = -1 \<longrightarrow>
         (\<exists>p t dst ct. resolve env c sR dR kv = Inr (p, t) \<and>
            NewClient env t (destRemote p) = Inr dst \<and>
            ContainerInfo env (t @ [CallNewClient (destRemote p), CallListProfiles dst])
              (source p) (sourceName p) = Inr ct \<and>
            mf_ephem a = Ephemeral ct))) \<and>
   (args \<noteq> [] \<longrightarrow>
      run env c args =
        copyContainer env c (args ! 0) (if length args < 2 then [] else args ! 1) False
          (if ephem c then 1 else 0) False (containerOnly c)) \<and>
   (\<forall>a\<in>set (handshakes (calls (run env c args))). mf_ephem a = ephem c)"
proof (intro conjI ballI impI)
  fix a
  assume "a \<in> set (handshakes (calls (run env c args)))"
  then have ne: "args \<noteq> []" by (auto simp: run_def calls_def)
  with \<open>a \<in> set (handshakes (calls (run env c args)))\<close>
  have "a \<in> set (handshakes (calls (copyContainer env c (args ! 0)
      (if length args < 2 then [] else args ! 1) False
       (if ephem c then 1 else 0) False (containerOnly c))))"
    by (simp only: run_eq [OF ne])
  from copyContainer_ephem [OF this] show "mf_ephem a = ephem c"
    by (simp split: if_splits)
qed (use copyContainer_ephem run_eq in blast)+

theorem ephemeral_read_from_source_witness:
  "Ephemeral sampleContainer \<and>
   handshakes (calls (copyContainer sampleEnv sampleCmd ''c1'' ''remote:c2'' False (-1) False False))
     = [sampleArgs ''10.0.0.1:8443'' True, sampleArgs ''10.0.0.2:8443'' True] \<and>
   mf_ephem (sampleArgs ''10.0.0.1:8443'' True) = Ephemeral sampleContainer \<and>
   \<not> ephem sampleCmd \<and>
   run sampleEnv sampleCmd [''c1'', ''remote:c2'']
     = copyContainer sampleEnv sampleCmd ''c1'' ''remote:c2'' False 0 False False \<and>
   handshakes (calls (run sampleEnv sampleCmd [''c1'', ''remote:c2'']))
     = [sampleArgs ''10.0.0.1:8443'' False, sampleArgs ''10.0.0.2:8443'' False] \<and>
   mf_ephem (sampleArgs ''10.0.0.1:8443'' False) = ephem sampleCmd"
proof -
  let ?auto = "copyContainer sampleEnv sampleCmd ''c1'' ''remote:c2'' False (-1) False False"
  have e: "Ephemeral sampleContainer" "\<not> ephem sampleCmd"
    by (simp_all add: sampleContainer_def sampleCmd_def)
  have ha: "handshakes (calls ?auto)
     = [sampleArgs ''10.0.0.1:8443'' True, sampleArgs ''10.0.0.2:8443'' True]"
    by (simp add: model_defs sample_defs fmap_eval calls_def)
  have ct: "ContainerInfo sampleEnv t cli name = Inr ct \<Longrightarrow> ct = sampleContainer"
    for t cli name ct
    by (auto simp: sampleEnv_def)
  have "sampleArgs ''10.0.0.1:8443'' True \<in> set (handshakes (calls ?auto))"
    by (simp add: ha)
  with ephemeral_read_from_source [of sampleEnv sampleCmd "''c1''" "''remote:c2''" False "-1"
      False False "[''c1'', ''remote:c2'']"]
  have "\<exists>p t. resolve sampleEnv sampleCmd ''c1'' ''remote:c2'' False = Inr (p, t) \<and>
      (\<exists>dst. NewClient sampleEnv t (destRemote p) = Inr dst \<and>
         (\<exists>ct. ContainerInfo sampleEnv
                 (t @ [CallNewClient (destRemote p), CallListProfiles dst])
                 (source p) (sourceName p) = Inr ct \<and>
               mf_ephem (sampleArgs ''10.0.0.1:8443'' True) = Ephemeral ct))"
    by simp
  then have ma: "mf_ephem (sampleArgs ''10.0.0.1:8443'' True) = Ephemeral sampleContainer"
    by (elim exE conjE) (simp add: sampleEnv_def)
  from ephemeral_read_from_source [of sampleEnv sampleCmd "''c1''" "''remote:c2''" False "-1"
      False False "[''c1'', ''remote:c2'']"] e(2)
  have rn: "run sampleEnv sampleCmd [''c1'', ''remote:c2'']
     = copyContainer sampleEnv sampleCmd ''c1'' ''remote:c2'' False 0 False False"
    by (simp add: sampleCmd_def)
  have hr: "handshakes (calls (run sampleEnv sampleCmd [''c1'', ''remote:c2'']))
     = [sampleArgs ''10.0.0.1:8443'' False, sampleArgs ''10.0.0.2:8443'' False]"
    unfolding rn by (simp add: model_defs sample_defs fmap_eval calls_def)
  then have "sampleArgs ''10.0.0.1:8443'' False
      \<in> set (handshakes (calls (run sampleEnv sampleCmd [''c1'', ''remote:c2''])))"
    by simp
  with ephemeral_read_from_source [of sampleEnv sampleCmd "''c1''" "''remote:c2''" False "-1"
      False False "[''c1'', ''remote:c2'']"]
  have mr: "mf_ephem (sampleArgs ''10.0.0.1:8443'' False) = ephem sampleCmd"
    by blast
  from e ha ma rn hr mr show ?thesis by blast
qed

end
